theory Spec2Isabelle
  imports Main
begin

section \<open>Python strings\<close>

text \<open>
  A Python \<open>str\<close> is a sequence of Unicode code points, so \<open>len\<close> counts code points.
  It is modelled as a list of code points (natural numbers). Attribute names are ASCII
  identifiers and are kept as HOL strings. \<open>cp\<close> embeds an ASCII literal.
\<close>

type_synonym pystr = "nat list"

definition cp :: "string \<Rightarrow> pystr" where
  "cp s = map of_char s"

text \<open>
  \<open>str.isspace\<close> on one code point: the white space that \<open>str.strip()\<close> and
  \<open>str.split()\<close> (both called without argument) remove.
\<close>

definition py_isspace :: "nat \<Rightarrow> bool" where
  "py_isspace c =
     ((9 \<le> c \<and> c \<le> 13) \<or> (28 \<le> c \<and> c \<le> 32) \<or> c = 133 \<or> c = 160 \<or> c = 5760 \<or>
      (8192 \<le> c \<and> c \<le> 8202) \<or> c = 8232 \<or> c = 8233 \<or> c = 8239 \<or> c = 8287 \<or>
      c = 12288)"

definition strip :: "pystr \<Rightarrow> pystr" where
  "strip s = rev (dropWhile py_isspace (rev (dropWhile py_isspace s)))"

text \<open>\<open>s.split()\<close>: the maximal runs of non-space code points, in order.\<close>

fun split_ws :: "pystr \<Rightarrow> pystr \<Rightarrow> pystr list" where
  "split_ws cur [] = (if cur = [] then [] else [cur])"
| "split_ws cur (c # cs) =
     (if py_isspace c then (if cur = [] then split_ws [] cs else cur # split_ws [] cs)
      else split_ws (cur @ [c]) cs)"

definition split :: "pystr \<Rightarrow> pystr list" where
  "split s = split_ws [] s"

text \<open>\<open>sep.join(xs)\<close>.\<close>

fun join :: "pystr \<Rightarrow> pystr list \<Rightarrow> pystr" where
  "join sep [] = []"
| "join sep [x] = x"
| "join sep (x # y # ys) = x @ sep @ join sep (y # ys)"

text \<open>\<open>s.startswith(p)\<close> and \<open>p in s\<close> (substring test).\<close>

fun startswith :: "pystr \<Rightarrow> pystr \<Rightarrow> bool" where
  "startswith s [] = True"
| "startswith [] (p # ps) = False"
| "startswith (c # cs) (p # ps) = (c = p \<and> startswith cs ps)"

fun contains :: "pystr \<Rightarrow> pystr \<Rightarrow> bool" where
  "contains [] p = (p = [])"
| "contains (c # cs) p = (startswith (c # cs) p \<or> contains cs p)"

text \<open>
  \<open>str(i)\<close> for a non-negative integer, \<open>s.isdigit()\<close> and \<open>int(s)\<close>. The model knows
  the ASCII digits \<open>0\<close>..\<open>9\<close>; the digits of other scripts, which Python also accepts,
  are read as ordinary text.
\<close>

fun str_of_nat :: "nat \<Rightarrow> pystr" where
  "str_of_nat n = (if n < 10 then [48 + n] else str_of_nat (n div 10) @ [48 + n mod 10])"

declare str_of_nat.simps [simp del]

definition is_digit_cp :: "nat \<Rightarrow> bool" where
  "is_digit_cp c = (48 \<le> c \<and> c \<le> 57)"

definition isdigit :: "pystr \<Rightarrow> bool" where
  "isdigit s = (s \<noteq> [] \<and> list_all is_digit_cp s)"

definition int_of_digits :: "pystr \<Rightarrow> nat" where
  "int_of_digits s = foldl (\<lambda>a c. 10 * a + (c - 48)) 0 s"

text \<open>The command prefix: \<open>if s.startswith("/"): s = s[1:]\<close>.\<close>

definition strip_slash :: "pystr \<Rightarrow> pystr" where
  "strip_slash s = (if startswith s (cp ''/'') then tl s else s)"

section \<open>Message components and the host library\<close>

text \<open>
  The message segments of \<open>astrbot.core.message.components\<close> that the plugin builds or
  inspects: \<open>Plain(text)\<close>, \<open>At(qq)\<close>, \<open>Image\<close> with its \<open>url\<close> and \<open>file\<close> attributes,
  \<open>Reply(id=0, sender_id=0, chain)\<close> and \<open>Node(uin, name="AstrBot", content)\<close>.
\<close>

datatype comp =
    Plain pystr
  | At pystr
  | Image "pystr option" "pystr option"
  | Reply "comp list"
  | Node pystr "comp list"

datatype exn_class = TypeErr | AttributeErr | OtherErr

datatype exn = Exn exn_class pystr

datatype ctor_outcome = Built comp | Raises exn

text \<open>
  The constructors of the host library are not part of the repository. The two whose
  failure the code provides for are parameters of the model: \<open>At(qq=...)\<close> may raise
  (\<open>at_raises\<close> gives the exception), and \<open>Image.fromURL(url)\<close> may build an image or
  raise. Neither is the Python interpreter: \<open>special_names\<close> lists the special names
  that the running interpreter finds on every instance of a class besides those
  common to all versions (\<open>__getstate__\<close> from version 3.11 on, \<open>__firstlineno__\<close> and
  \<open>__static_attributes__\<close> from version 3.13 on), each without its two leading and its
  two trailing underscores.
\<close>

record lib =
  at_raises :: "pystr \<Rightarrow> exn option"
  image_fromURL :: "pystr \<Rightarrow> ctor_outcome"
  special_names :: "string list"

section \<open>Message synthesizer\<close>

text \<open>
  The search for a placeholder: for each \<open>i\<close> in \<open>range(len(at_qq_list))\<close>, whether the
  at-sign followed by the decimal digits of \<open>i\<close> occurs in \<open>args\<close>.
\<close>

definition has_placeholders :: "pystr \<Rightarrow> nat \<Rightarrow> bool" where
  "has_placeholders args n = list_ex (\<lambda>i. contains args (cp ''@'' @ str_of_nat i)) [0..<n]"

definition is_placeholder :: "pystr \<Rightarrow> bool" where
  "is_placeholder part = (startswith part (cp ''@'') \<and> 1 < length part \<and> isdigit (tl part))"

definition flush :: "pystr list \<Rightarrow> comp list \<Rightarrow> comp list" where
  "flush text_buffer components =
     (if text_buffer \<noteq> [] then components @ [Plain (cp '' '' @ join (cp '' '') text_buffer)]
      else components)"

text \<open>
  The loop over \<open>arg_parts\<close> of placeholder mode. When \<open>At\<close> raises, the buffered text has
  already been flushed, and the token joins the (now empty) buffer.
\<close>

fun placeholder_loop ::
  "lib \<Rightarrow> pystr list \<Rightarrow> pystr list \<Rightarrow> pystr list \<Rightarrow> comp list \<Rightarrow> comp list" where
  "placeholder_loop L at_qq_list [] text_buffer components = flush text_buffer components"
| "placeholder_loop L at_qq_list (part # rest) text_buffer components =
     (if is_placeholder part then
        (let idx = int_of_digits (tl part) in
         if idx < length at_qq_list then
           (case at_raises L (at_qq_list ! idx) of
              None \<Rightarrow>
                placeholder_loop L at_qq_list rest []
                  (flush text_buffer components @ [At (at_qq_list ! idx)])
            | Some e \<Rightarrow>
                placeholder_loop L at_qq_list rest [part] (flush text_buffer components))
         else placeholder_loop L at_qq_list rest (text_buffer @ [part]) components)
      else placeholder_loop L at_qq_list rest (text_buffer @ [part]) components)"

text \<open>\<open>for qq in at_qq_list: try: components.append(At(qq=str(qq))) except: log\<close>.\<close>

fun append_ats :: "lib \<Rightarrow> pystr list \<Rightarrow> comp list \<Rightarrow> comp list" where
  "append_ats L [] components = components"
| "append_ats L (qq # qs) components =
     (case at_raises L qq of
        None \<Rightarrow> append_ats L qs (components @ [At qq])
      | Some e \<Rightarrow> append_ats L qs components)"

text \<open>
  The quoted image: \<open>Image.fromURL(url)\<close>, with \<open>Image(file=url)\<close> when that raises
  \<open>AttributeError\<close> or \<open>TypeError\<close>; any other exception leaves the function.
\<close>

definition reply_part :: "lib \<Rightarrow> pystr option \<Rightarrow> exn + comp list" where
  "reply_part L reply_image_url =
     (case reply_image_url of
        None \<Rightarrow> Inr []
      | Some url \<Rightarrow>
          if url = [] then Inr []
          else
            (case image_fromURL L url of
               Built img_comp \<Rightarrow> Inr [Reply [img_comp]]
             | Raises (Exn TypeErr m) \<Rightarrow> Inr [Reply [Image None (Some url)]]
             | Raises (Exn AttributeErr m) \<Rightarrow> Inr [Reply [Image None (Some url)]]
             | Raises (Exn OtherErr m) \<Rightarrow> Inl (Exn OtherErr m)))"

definition message_part :: "lib \<Rightarrow> pystr \<Rightarrow> pystr \<Rightarrow> pystr list \<Rightarrow> comp list" where
  "message_part L command args at_qq_list =
     (if at_qq_list \<noteq> [] \<and> args \<noteq> [] then
        (if has_placeholders args (length at_qq_list) then
           placeholder_loop L at_qq_list (split args) [] [Plain (cp ''/'' @ command)]
         else
           append_ats L at_qq_list [Plain (cp ''/'' @ command)] @ [Plain (cp '' '' @ args)])
      else
        append_ats L at_qq_list
          [Plain (if args \<noteq> [] then cp ''/'' @ command @ cp '' '' @ args
                  else cp ''/'' @ command)])"

definition build_message_components ::
  "lib \<Rightarrow> pystr \<Rightarrow> pystr \<Rightarrow> pystr list \<Rightarrow> pystr option \<Rightarrow> exn + comp list" where
  "build_message_components L command args at_qq_list reply_image_url =
     (case reply_part L reply_image_url of
        Inl e \<Rightarrow> Inl e
      | Inr components \<Rightarrow> Inr (components @ message_part L command args at_qq_list))"

section \<open>Extensions, handler registry and plugin state\<close>

text \<open>
  What the host gives for an extension (a "star"): its \<open>name\<close> and \<open>module_path\<close> are read
  with \<open>getattr\<close> and a default, so they may be missing (\<open>None\<close>); \<open>star_cls\<close> is the
  plugin instance, an opaque reference.
\<close>

record star =
  star_name :: "pystr option"
  module_path :: "pystr option"
  activated :: bool
  star_cls :: "nat option"

text \<open>
  The \<open>alias\<close> attribute of a command filter: absent or \<open>None\<close>, a set (given with the
  order in which \<open>list(...)\<close> enumerates it), a list, or some other object.
\<close>

datatype alias_decl = NoAlias | AliasSet "pystr list" | AliasList "pystr list" | AliasOther

datatype event_filter =
    CommandFilter pystr alias_decl
  | CommandGroupFilter pystr
  | PermissionTypeFilter
  | OtherFilter

text \<open>
  \<open>StarHandlerMetadata\<close>: the owning module, the description, the declared filters and
  the callable \<open>handler.handler\<close> (an opaque reference).
\<close>

record handler_metadata =
  handler_module_path :: pystr
  desc :: pystr
  event_filters :: "event_filter list"
  handler_callable :: nat

datatype registry_entry = Metadata handler_metadata | NotMetadata

text \<open>
  The dictionary \<open>handler_info\<close> stored in \<open>_handler_cache\<close>, with its keys \<open>command\<close>,
  \<open>description\<close>, \<open>plugin\<close>, \<open>aliases\<close>, \<open>is_admin\<close>, \<open>handler\<close> and \<open>module_path\<close>.
\<close>

record handler_info =
  info_command :: pystr
  info_description :: pystr
  info_plugin :: pystr
  info_aliases :: "pystr list"
  info_is_admin :: bool
  info_handler :: handler_metadata
  info_module_path :: pystr

text \<open>The plugin object: its configuration and its two dictionaries.\<close>

record plugin_state =
  enabled :: bool
  whitelist :: "pystr list"
  blacklist :: "pystr list"
  allow_admin_commands :: bool
  admin_users :: "pystr list"
  bot_user_id :: pystr
  enable_forward :: bool
  forward_threshold :: int
  handler_cache :: "pystr \<rightharpoonup> handler_info"
  alias_to_command :: "pystr \<rightharpoonup> pystr"

section \<open>Object store, events and the host\<close>

text \<open>
  Python objects are mutable and shared, so they live in a store: an address maps to
  the attribute table of the object there. A value is \<open>None\<close>, a string, a reference
  to an object of the store, a list of message components, or what a wrapper has of
  its own under a name (\<open>VOwn\<close>): a method of its class bound to it, its class, its
  instance dictionary, its docstring, or what \<open>object\<close> gives every instance.
\<close>

datatype val = VNone | VStr pystr | VRef nat | VComps "comp list" | VOwn string

type_synonym obj = "string \<rightharpoonup> val"

type_synonym heap = "nat \<rightharpoonup> obj"

text \<open>
  \<open>getattr(o, name)\<close>, \<open>hasattr(o, name)\<close> and \<open>setattr(o, name, v)\<close> on a value: only a
  reference to an object of the store has attributes; on anything else reading and
  writing raise \<open>AttributeError\<close>.
\<close>

definition attribute_error :: "string \<Rightarrow> exn" where
  "attribute_error attr = Exn AttributeErr (cp attr)"

definition py_getattr :: "heap \<Rightarrow> val \<Rightarrow> string \<Rightarrow> exn + val" where
  "py_getattr hp ob attr =
     (case ob of
        VRef a \<Rightarrow>
          (case hp a of
             None \<Rightarrow> Inl (attribute_error attr)
           | Some tbl \<Rightarrow>
               (case tbl attr of None \<Rightarrow> Inl (attribute_error attr) | Some v \<Rightarrow> Inr v))
      | VNone \<Rightarrow> Inl (attribute_error attr)
      | VStr s \<Rightarrow> Inl (attribute_error attr)
      | VComps cs \<Rightarrow> Inl (attribute_error attr)
      | VOwn m \<Rightarrow> Inl (attribute_error attr))"

definition py_hasattr :: "heap \<Rightarrow> val \<Rightarrow> string \<Rightarrow> bool" where
  "py_hasattr hp ob attr = (case py_getattr hp ob attr of Inl e \<Rightarrow> False | Inr v \<Rightarrow> True)"

definition py_setattr :: "heap \<Rightarrow> val \<Rightarrow> string \<Rightarrow> val \<Rightarrow> exn + heap" where
  "py_setattr hp ob attr v =
     (case ob of
        VRef a \<Rightarrow>
          (case hp a of
             None \<Rightarrow> Inl (attribute_error attr)
           | Some tbl \<Rightarrow> Inr (hp(a \<mapsto> tbl(attr \<mapsto> v))))
      | VNone \<Rightarrow> Inl (attribute_error attr)
      | VStr s \<Rightarrow> Inl (attribute_error attr)
      | VComps cs \<Rightarrow> Inl (attribute_error attr)
      | VOwn m \<Rightarrow> Inl (attribute_error attr))"

text \<open>
  \<open>BotIdentityEventWrapper\<close>: its instance dictionary holds \<open>_original_event\<close> and
  \<open>_bot_user_id\<close>. The event a handler is handed is the event itself (by its address)
  or a wrapper around it.
\<close>

record wrapper =
  w_original_event :: val
  w_bot_user_id :: val

datatype event_handle = Real nat | Wrapped wrapper

text \<open>
  What a handler produces: a \<open>MessageEventResult\<close> with its \<open>chain\<close>, a bare string, an
  object with a \<open>result_message\<close>, or anything else.
\<close>

datatype result = ChainResult "comp list" | StrResult pystr | MessageResult pystr | OtherResult

text \<open>
  What a call \<open>handler.handler(event)\<close> gives: an asynchronous generator (the items
  it yields, \<open>None\<close> items included, and the exception that ends it, if any), a
  coroutine (the value it returns when awaited, or the exception it raises), an
  exception raised by the call itself, or an object that can be neither iterated nor
  awaited.
\<close>

datatype behaviour =
    AsyncGen "result option list" "exn option"
  | Coroutine "exn + result option"
  | CallRaises exn
  | NotAwaitable

text \<open>
  The host, as far as the plugin calls it: \<open>context.get_all_stars()\<close> (\<open>None\<close> when the
  call raises) and the global \<open>star_handlers_registry\<close>; for the event at an address,
  \<open>sender_id_of\<close> is its \<open>str(event.get_sender_id())\<close>, \<open>platform_name_of\<close> its
  \<open>get_platform_name()\<close> and \<open>self_id_of\<close> its \<open>get_self_id()\<close>;
  \<open>send_raises k payload\<close> tells whether \<open>event.send(payload)\<close> raises when \<open>k\<close> sends
  were made before it; \<open>call_handler\<close> is what calling \<open>handler.handler(event)\<close> gives,
  from the callable, the object store and the event it is handed.
\<close>

record host =
  get_all_stars :: "star list option"
  star_handlers_registry :: "registry_entry list"
  sender_id_of :: "nat \<Rightarrow> pystr"
  platform_name_of :: "nat \<Rightarrow> pystr"
  self_id_of :: "nat \<Rightarrow> pystr"
  send_raises :: "nat \<Rightarrow> result \<Rightarrow> exn option"
  call_handler :: "nat \<Rightarrow> heap \<Rightarrow> event_handle \<Rightarrow> behaviour"

section \<open>Handler index\<close>

definition unknown_plugin :: pystr where
  "unknown_plugin = [0x672A, 0x77E5, 0x63D2, 0x4EF6]"

definition no_description :: pystr where
  "no_description = [0x65E0, 0x63CF, 0x8FF0]"

definition skip_plugins :: "pystr list" where
  "skip_plugins =
     [cp ''astrbot'', cp ''astrbot_plugin_llm_executor'', cp ''astrbot_plugin_command_query'',
      cp ''astrbot-reminder'']"

definition plugin_name_of :: "star \<Rightarrow> pystr" where
  "plugin_name_of s = (case star_name s of None \<Rightarrow> unknown_plugin | Some n \<Rightarrow> n)"

text \<open>The first loop: \<open>module_to_star[module_path] = (star, plugin_name)\<close>.\<close>

fun build_module_to_star ::
  "star list \<Rightarrow> (pystr \<rightharpoonup> star \<times> pystr) \<Rightarrow> (pystr \<rightharpoonup> star \<times> pystr)" where
  "build_module_to_star [] module_to_star = module_to_star"
| "build_module_to_star (s # ss) module_to_star =
     (case module_path s of
        None \<Rightarrow> build_module_to_star ss module_to_star
      | Some mp \<Rightarrow>
          if plugin_name_of s \<in> set skip_plugins \<or> mp = []
          then build_module_to_star ss module_to_star
          else build_module_to_star ss (module_to_star(mp \<mapsto> (s, plugin_name_of s))))"

text \<open>
  The loop over \<open>handler.event_filters\<close>, on the three variables \<open>command_name\<close>,
  \<open>aliases\<close> and \<open>is_admin_command\<close>. Each command or group filter overwrites
  \<open>command_name\<close>; \<open>aliases\<close> is overwritten only by a non-empty set or list.
\<close>

definition read_alias :: "alias_decl \<Rightarrow> pystr list \<Rightarrow> pystr list" where
  "read_alias a current =
     (case a of
        NoAlias \<Rightarrow> current
      | AliasSet xs \<Rightarrow> (if xs \<noteq> [] then xs else current)
      | AliasList xs \<Rightarrow> (if xs \<noteq> [] then xs else current)
      | AliasOther \<Rightarrow> current)"

fun scan_filters ::
  "event_filter list \<Rightarrow> pystr option \<times> pystr list \<times> bool \<Rightarrow> pystr option \<times> pystr list \<times> bool"
  where
  "scan_filters [] v = v"
| "scan_filters (CommandFilter n a # fs) (command_name, als, adm) =
     scan_filters fs (Some n, read_alias a als, adm)"
| "scan_filters (CommandGroupFilter g # fs) (command_name, als, adm) =
     scan_filters fs (Some g, als, adm)"
| "scan_filters (PermissionTypeFilter # fs) (command_name, als, adm) =
     scan_filters fs (command_name, als, True)"
| "scan_filters (OtherFilter # fs) v = scan_filters fs v"

text \<open>\<open>for alias in aliases: self._alias_to_command[alias.lstrip-one-slash] = command_name\<close>.\<close>

fun index_aliases :: "pystr list \<Rightarrow> pystr \<Rightarrow> (pystr \<rightharpoonup> pystr) \<Rightarrow> (pystr \<rightharpoonup> pystr)" where
  "index_aliases [] command_name m = m"
| "index_aliases (alias # als) command_name m =
     index_aliases als command_name (m(strip_slash alias \<mapsto> command_name))"

text \<open>The body of the loop over \<open>star_handlers_registry\<close>, for one entry.\<close>

definition index_handler ::
  "(pystr \<rightharpoonup> star \<times> pystr) \<Rightarrow> registry_entry \<Rightarrow> plugin_state \<Rightarrow> plugin_state" where
  "index_handler module_to_star entry self =
     (case entry of
        NotMetadata \<Rightarrow> self
      | Metadata h \<Rightarrow>
          (case module_to_star (handler_module_path h) of
             None \<Rightarrow> self
           | Some (st, plugin_name) \<Rightarrow>
               (case scan_filters (event_filters h) (None, [], False) of
                  (None, als, adm) \<Rightarrow> self
                | (Some n, als, adm) \<Rightarrow>
                    if n = [] then self
                    else
                      (let command_name = strip_slash n;
                           handler_info =
                             \<lparr>info_command = command_name,
                              info_description = (if desc h = [] then no_description else desc h),
                              info_plugin = plugin_name,
                              info_aliases = als,
                              info_is_admin = adm,
                              info_handler = h,
                              info_module_path = handler_module_path h\<rparr>
                       in self\<lparr>handler_cache := (handler_cache self)(command_name \<mapsto> handler_info),
                               alias_to_command :=
                                 index_aliases als command_name (alias_to_command self)\<rparr>))))"

fun scan_registry ::
  "(pystr \<rightharpoonup> star \<times> pystr) \<Rightarrow> registry_entry list \<Rightarrow> plugin_state \<Rightarrow> plugin_state" where
  "scan_registry module_to_star [] self = self"
| "scan_registry module_to_star (entry # entries) self =
     scan_registry module_to_star entries (index_handler module_to_star entry self)"

text \<open>\<open>self._handler_cache.clear(); self._alias_to_command.clear()\<close>.\<close>

definition clear_index :: "plugin_state \<Rightarrow> plugin_state" where
  "clear_index self = self\<lparr>handler_cache := Map.empty, alias_to_command := Map.empty\<rparr>"

definition build_handler_cache :: "host \<Rightarrow> plugin_state \<Rightarrow> plugin_state" where
  "build_handler_cache H self =
     (let cleared = clear_index self in
      case get_all_stars H of
        None \<Rightarrow> cleared
      | Some stars \<Rightarrow>
          (let all_stars = filter activated stars in
           if all_stars = [] then cleared
           else scan_registry (build_module_to_star all_stars Map.empty)
                  (star_handlers_registry H) cleared))"

section \<open>Identity substitution wrapper\<close>

text \<open>
  \<open>__init__\<close> stores its two arguments through \<open>__setattr__\<close>, which keeps these two names
  in the wrapper itself.
\<close>

definition wrapper_init :: "val \<Rightarrow> val \<Rightarrow> wrapper" where
  "wrapper_init original bot_id = \<lparr>w_original_event = original, w_bot_user_id = bot_id\<rparr>"

definition wrapper_get_sender_id :: "wrapper \<Rightarrow> val" where
  "wrapper_get_sender_id w = w_bot_user_id w"

text \<open>\<open>__getattr__(self, name)\<close>: \<open>getattr(self._original_event, name)\<close>.\<close>

definition wrapper_getattr :: "heap \<Rightarrow> wrapper \<Rightarrow> string \<Rightarrow> exn + val" where
  "wrapper_getattr hp w attr = py_getattr hp (w_original_event w) attr"

text \<open>
  \<open>__setattr__(self, name, value)\<close>: the two internal names are written into the
  wrapper, every other name into the original event.
\<close>

definition wrapper_setattr ::
  "heap \<Rightarrow> wrapper \<Rightarrow> string \<Rightarrow> val \<Rightarrow> exn + heap \<times> wrapper" where
  "wrapper_setattr hp w attr v =
     (if attr = ''_original_event'' then Inr (hp, w\<lparr>w_original_event := v\<rparr>)
      else if attr = ''_bot_user_id'' then Inr (hp, w\<lparr>w_bot_user_id := v\<rparr>)
      else
        (case py_setattr hp (w_original_event w) attr v of
           Inl e \<Rightarrow> Inl e
         | Inr hp' \<Rightarrow> Inr (hp', w)))"

text \<open>
  The names that the class statement of \<open>BotIdentityEventWrapper\<close> binds: its four
  functions and its docstring, and what every class statement without \<open>__slots__\<close>
  adds (\<open>__module__\<close>, \<open>__dict__\<close>, \<open>__weakref__\<close>).
\<close>

definition class_namespace :: "string list" where
  "class_namespace =
     [''__init__'', ''get_sender_id'', ''__getattr__'', ''__setattr__'', ''__doc__'',
      ''__module__'', ''__dict__'', ''__weakref__'']"

text \<open>The names that \<open>object\<close>, the only base of the class, has in every version of Python 3.\<close>

definition object_namespace :: "string list" where
  "object_namespace =
     [''__class__'', ''__delattr__'', ''__dir__'', ''__doc__'', ''__eq__'', ''__format__'',
      ''__ge__'', ''__getattribute__'', ''__gt__'', ''__hash__'', ''__init__'',
      ''__init_subclass__'', ''__le__'', ''__lt__'', ''__ne__'', ''__new__'', ''__reduce__'',
      ''__reduce_ex__'', ''__repr__'', ''__setattr__'', ''__sizeof__'', ''__str__'',
      ''__subclasshook__'']"

text \<open>A special name, from what stands between its underscores.\<close>

definition dunder :: "string \<Rightarrow> string" where
  "dunder stem = ''__'' @ stem @ ''__''"

text \<open>
  Whether the lookup through the type of a wrapper finds a name: in the class, in
  \<open>object\<close>, or among the further special names of the running interpreter.
\<close>

definition found_in_type :: "lib \<Rightarrow> string \<Rightarrow> bool" where
  "found_in_type L attr =
     (attr \<in> set (class_namespace @ object_namespace @ map dunder (special_names L)))"

text \<open>
  Reading \<open>w.name\<close> on a wrapper. Python calls \<open>__getattr__\<close> only when the ordinary
  lookup misses. A name of the instance dictionary (the two internal fields) reads the
  field; a name found through the type reads what the wrapper has of its own under it
  (for \<open>get_sender_id\<close>, the method bound to the wrapper); any other name goes to
  \<open>__getattr__\<close>.
\<close>

definition wrapper_read :: "lib \<Rightarrow> heap \<Rightarrow> wrapper \<Rightarrow> string \<Rightarrow> exn + val" where
  "wrapper_read L hp w attr =
     (if attr = ''_original_event'' then Inr (w_original_event w)
      else if attr = ''_bot_user_id'' then Inr (w_bot_user_id w)
      else if found_in_type L attr then Inr (VOwn attr)
      else wrapper_getattr hp w attr)"

text \<open>Attribute access on the event a piece of code holds, wrapped or not.\<close>

definition event_getattr :: "lib \<Rightarrow> heap \<Rightarrow> event_handle \<Rightarrow> string \<Rightarrow> exn + val" where
  "event_getattr L hp event attr =
     (case event of
        Real a \<Rightarrow> py_getattr hp (VRef a) attr
      | Wrapped w \<Rightarrow> wrapper_read L hp w attr)"

definition event_setattr ::
  "heap \<Rightarrow> event_handle \<Rightarrow> string \<Rightarrow> val \<Rightarrow> exn + heap \<times> event_handle" where
  "event_setattr hp event attr v =
     (case event of
        Real a \<Rightarrow>
          (case py_setattr hp (VRef a) attr v of
             Inl e \<Rightarrow> Inl e
           | Inr hp' \<Rightarrow> Inr (hp', Real a))
      | Wrapped w \<Rightarrow>
          (case wrapper_setattr hp w attr v of
             Inl e \<Rightarrow> Inl e
           | Inr (hp', w') \<Rightarrow> Inr (hp', Wrapped w')))"

section \<open>Policy gate\<close>

text \<open>
  The reason string of \<open>_can_execute\<close>, by the branch that produces it; the denials
  carry the (prefix-stripped) command they quote.
\<close>

datatype reason =
    Disabled
  | NotFound pystr
  | NotInWhitelist pystr
  | InBlacklist pystr
  | NeedsAdmin pystr
  | AllowedAdminUser
  | Allowed

definition resolve_alias :: "plugin_state \<Rightarrow> pystr \<Rightarrow> pystr" where
  "resolve_alias self command =
     (case alias_to_command self command of None \<Rightarrow> command | Some c \<Rightarrow> c)"

text \<open>
  Resolution as \<open>_can_execute\<close> does it: strip the prefix, follow the alias index (the
  name itself when it is no alias), look the canonical name up.
\<close>

definition resolve :: "plugin_state \<Rightarrow> pystr \<Rightarrow> handler_info option" where
  "resolve self command0 = handler_cache self (resolve_alias self (strip_slash command0))"

definition can_execute :: "host \<Rightarrow> plugin_state \<Rightarrow> pystr \<Rightarrow> nat \<Rightarrow> bool \<times> reason" where
  "can_execute H self command0 event =
     (if \<not> enabled self then (False, Disabled)
      else
        (let command = strip_slash command0;
             actual_command = resolve_alias self command
         in case handler_cache self actual_command of
              None \<Rightarrow> (False, NotFound command)
            | Some handler_info \<Rightarrow>
                if whitelist self \<noteq> [] \<and> actual_command \<notin> set (whitelist self) \<and>
                   command \<notin> set (whitelist self)
                then (False, NotInWhitelist command)
                else if blacklist self \<noteq> [] \<and>
                   (actual_command \<in> set (blacklist self) \<or> command \<in> set (blacklist self))
                then (False, InBlacklist command)
                else if info_is_admin handler_info then
                  (let user_id = sender_id_of H event in
                   if user_id \<in> set (admin_users self) then (True, AllowedAdminUser)
                   else if \<not> allow_admin_commands self then (False, NeedsAdmin command)
                   else (True, Allowed))
                else (True, Allowed)))"

section \<open>Result normaliser and fan-out\<close>

text \<open>
  \<open>_extract_content_from_result\<close>: the texts and the image references of a result. In a
  chain, a \<open>Plain\<close> gives its text (also when it is empty, by the second branch), an
  \<open>Image\<close> its \<open>url\<close> or else its \<open>file\<close>; the other components give nothing.
\<close>

fun extract_comp :: "comp \<Rightarrow> pystr list \<times> pystr list" where
  "extract_comp (Plain t) = ([t], [])"
| "extract_comp (Image url file) =
     (case url of
        Some u \<Rightarrow>
          if u \<noteq> [] then ([], [u])
          else (case file of Some f \<Rightarrow> (if f \<noteq> [] then ([], [f]) else ([], [])) | None \<Rightarrow> ([], []))
      | None \<Rightarrow>
          (case file of Some f \<Rightarrow> (if f \<noteq> [] then ([], [f]) else ([], [])) | None \<Rightarrow> ([], [])))"
| "extract_comp (At qq) = ([], [])"
| "extract_comp (Reply chain) = ([], [])"
| "extract_comp (Node uin content) = ([], [])"

definition extract_content_from_result :: "result \<Rightarrow> pystr list \<times> pystr list" where
  "extract_content_from_result r =
     (case r of
        ChainResult chain \<Rightarrow>
          (concat (map (\<lambda>c. fst (extract_comp c)) chain),
           concat (map (\<lambda>c. snd (extract_comp c)) chain))
      | StrResult s \<Rightarrow> ([s], [])
      | MessageResult m \<Rightarrow> (if m \<noteq> [] then ([m], []) else ([], []))
      | OtherResult \<Rightarrow> ([], []))"

text \<open>
  \<open>result_texts\<close> and \<open>result_images\<close> after the loop over the produced results: what
  \<open>extend\<close> has accumulated from each of them.
\<close>

definition collect_texts :: "result list \<Rightarrow> pystr list" where
  "collect_texts results_to_send =
     concat (map (\<lambda>r. fst (extract_content_from_result r)) results_to_send)"

definition collect_images :: "result list \<Rightarrow> pystr list" where
  "collect_images results_to_send =
     concat (map (\<lambda>r. snd (extract_content_from_result r)) results_to_send)"

text \<open>
  \<open>await event.send(payload)\<close>: the call is recorded in the log of sends, in order,
  whether or not it raises.
\<close>

definition send :: "host \<Rightarrow> result \<Rightarrow> result list \<Rightarrow> exn option \<times> result list" where
  "send H payload log = (send_raises H (length log) payload, log @ [payload])"

text \<open>\<open>for result in results_to_send: try: await event.send(result) except: log\<close>.\<close>

fun send_each :: "host \<Rightarrow> result list \<Rightarrow> result list \<Rightarrow> result list" where
  "send_each H [] log = log"
| "send_each H (r # rs) log = send_each H rs (snd (send H r log))"

definition total_text_length :: "pystr list \<Rightarrow> int" where
  "total_text_length result_texts = int (sum_list (map length result_texts))"

definition use_forward :: "host \<Rightarrow> plugin_state \<Rightarrow> nat \<Rightarrow> pystr list \<Rightarrow> bool" where
  "use_forward H self event result_texts =
     (enable_forward self \<and> total_text_length result_texts > forward_threshold self \<and>
      platform_name_of H event = cp ''aiocqhttp'')"

text \<open>\<open>all_components\<close>: the chains of the results that have a non-empty chain, joined.\<close>

definition all_components :: "result list \<Rightarrow> comp list" where
  "all_components results_to_send =
     concat (map (\<lambda>r. case r of ChainResult chain \<Rightarrow> chain | StrResult s \<Rightarrow> []
                        | MessageResult m \<Rightarrow> [] | OtherResult \<Rightarrow> []) results_to_send)"

definition fan_out ::
  "host \<Rightarrow> plugin_state \<Rightarrow> nat \<Rightarrow> result list \<Rightarrow> pystr list \<Rightarrow> result list \<Rightarrow> result list" where
  "fan_out H self event results_to_send result_texts log =
     (if use_forward H self event result_texts then
        (if all_components results_to_send \<noteq> [] then
           (case send H (ChainResult [Node (self_id_of H event) (all_components results_to_send)]) log of
              (None, log') \<Rightarrow> log'
            | (Some forward_err, log') \<Rightarrow> send_each H results_to_send log')
         else log)
      else send_each H results_to_send log)"

section \<open>Invocation\<close>

text \<open>
  The two ways of running a handler. \<open>async for result in handler.handler(event)\<close>
  collects the items that are not \<open>None\<close>; a \<open>TypeError\<close> (raised by the call, by the
  generator, or by \<open>async for\<close> itself when the call gives no asynchronous generator)
  leads to \<open>result = await handler.handler(event)\<close>, a second call, whose own exception
  is not caught here.
\<close>

definition await_type_error :: exn where
  "await_type_error = Exn TypeErr (cp ''object cannot be used in await expression'')"

definition non_null :: "result option list \<Rightarrow> result list" where
  "non_null items = concat (map (\<lambda>r. case r of None \<Rightarrow> [] | Some x \<Rightarrow> [x]) items)"

definition await_handler :: "behaviour \<Rightarrow> exn + result list" where
  "await_handler b =
     (case b of
        Coroutine (Inr r) \<Rightarrow> Inr (non_null [r])
      | Coroutine (Inl e) \<Rightarrow> Inl e
      | AsyncGen items err \<Rightarrow> Inl await_type_error
      | CallRaises e \<Rightarrow> Inl e
      | NotAwaitable \<Rightarrow> Inl await_type_error)"

definition with_fallback :: "result list \<Rightarrow> behaviour \<Rightarrow> exn + result list" where
  "with_fallback collected second =
     (case await_handler second of Inl e \<Rightarrow> Inl e | Inr rs \<Rightarrow> Inr (collected @ rs))"

definition run_handler :: "behaviour \<Rightarrow> behaviour \<Rightarrow> exn + result list" where
  "run_handler first second =
     (case first of
        AsyncGen items None \<Rightarrow> Inr (non_null items)
      | AsyncGen items (Some (Exn TypeErr m)) \<Rightarrow> with_fallback (non_null items) second
      | AsyncGen items (Some (Exn AttributeErr m)) \<Rightarrow> Inl (Exn AttributeErr m)
      | AsyncGen items (Some (Exn OtherErr m)) \<Rightarrow> Inl (Exn OtherErr m)
      | Coroutine r \<Rightarrow> with_fallback [] second
      | CallRaises (Exn TypeErr m) \<Rightarrow> with_fallback [] second
      | CallRaises (Exn AttributeErr m) \<Rightarrow> Inl (Exn AttributeErr m)
      | CallRaises (Exn OtherErr m) \<Rightarrow> Inl (Exn OtherErr m)
      | NotAwaitable \<Rightarrow> with_fallback [] second)"

text \<open>\<open>_get_plugin_instance\<close>: the \<open>star_cls\<close> of the first star with that module path.\<close>

definition get_plugin_instance :: "host \<Rightarrow> pystr \<Rightarrow> nat option" where
  "get_plugin_instance H mp =
     (case get_all_stars H of
        None \<Rightarrow> None
      | Some all_stars \<Rightarrow>
          (case find (\<lambda>s. module_path s = Some mp) all_stars of
             None \<Rightarrow> None
           | Some s \<Rightarrow> star_cls s))"

text \<open>
  The keyword arguments of the tool call; a key that is missing is \<open>None\<close>. The value
  under \<open>command\<close>, \<open>args\<close> or \<open>reply_image_url\<close> is a string, or a value of another type
  (Python's \<open>None\<close>, a number, a boolean, a list, a dictionary), which has no \<open>strip\<close>
  method. \<open>as_bot\<close> is given by its truth value, which is all the code reads of it.
  \<open>at_qq_list\<close> is a list, given by the \<open>str\<close> of its elements, through which alone the
  code reads them; a value that is false (\<open>None\<close> too) is to the code what the empty
  list is. Before the parameter check the code only tests \<open>at_qq_list\<close> for truth and
  formats it into the log line, which raises for no value.
\<close>

datatype arg = StrArg pystr | NonStrArg

record kwargs =
  kw_command :: "arg option"
  kw_args :: "arg option"
  kw_at_qq_list :: "pystr list option"
  kw_reply_image_url :: "arg option"
  kw_as_bot :: "bool option"

text \<open>
  The JSON payload, by its fields: a failure has an optional \<open>command\<close> and its \<open>error\<close>;
  a success has \<open>command\<close>, \<open>args\<close>, \<open>result\<close>, \<open>images\<close> (when there are any) and
  \<open>executed_as\<close>.
\<close>

datatype error_text =
    MissingCommand
  | Denied reason
  | CommandNotFound pystr
  | NoPluginInstance pystr
  | ExecutionFailed exn

datatype result_text = JoinedText pystr | ImageCount nat | NoOutput

datatype identity = AsBot | AsUser

datatype response =
    Failure "pystr option" error_text
  | Success pystr "pystr option" result_text "pystr list option" identity

fun success :: "response \<Rightarrow> bool" where
  "success (Failure c e) = False"
| "success (Success c a r i x) = True"

text \<open>The world an invocation acts on: the object store and the log of sends.\<close>

record world =
  store :: heap
  sent :: "result list"

text \<open>
  The block under \<open>if at_qq_list or reply_image_url\<close>: the components are written into
  \<open>event.message_obj.message\<close>, in place, when the event has a \<open>message_obj\<close> with a
  \<open>message\<close> attribute. A failure of the synthesizer is logged and changes nothing.
\<close>

definition set_message_components ::
  "lib \<Rightarrow> heap \<Rightarrow> event_handle \<Rightarrow> pystr \<Rightarrow> pystr \<Rightarrow> pystr list \<Rightarrow> pystr \<Rightarrow> heap" where
  "set_message_components L hp event actual_command args at_qq_list reply_image_url =
     (case build_message_components L actual_command args at_qq_list (Some reply_image_url) of
        Inl e \<Rightarrow> hp
      | Inr components \<Rightarrow>
          (case event_getattr L hp event ''message_obj'' of
             Inl e \<Rightarrow> hp
           | Inr message_obj \<Rightarrow>
               if py_hasattr hp message_obj ''message'' then
                 (case py_setattr hp message_obj ''message'' (VComps components) of
                    Inl e \<Rightarrow> hp
                  | Inr hp' \<Rightarrow> hp')
               else hp))"

definition build_response ::
  "pystr \<Rightarrow> pystr \<Rightarrow> pystr list \<Rightarrow> pystr list \<Rightarrow> bool \<Rightarrow> response" where
  "build_response actual_command args result_texts result_images as_bot =
     Success actual_command (if args \<noteq> [] then Some args else None)
       (if result_texts \<noteq> [] then JoinedText (join [10] result_texts)
        else if result_images \<noteq> [] then ImageCount (length result_images)
        else NoOutput)
       (if result_images \<noteq> [] then Some result_images else None)
       (if as_bot then AsBot else AsUser)"

text \<open>
  The body of the \<open>try\<close> of \<open>execute_command\<close>, from the wrapping of the event to the
  restoration on the success path. It gives the response, or the exception that the
  \<open>except\<close> clause receives, and the world as it is at that point.
\<close>

definition try_body ::
  "host \<Rightarrow> lib \<Rightarrow> plugin_state \<Rightarrow> world \<Rightarrow> nat \<Rightarrow> handler_info \<Rightarrow> pystr \<Rightarrow> pystr \<Rightarrow>
   pystr list \<Rightarrow> pystr \<Rightarrow> bool \<Rightarrow> val \<Rightarrow> val \<Rightarrow> (exn + response) \<times> world" where
  "try_body H L self W original_event handler_info actual_command args at_qq_list
     reply_image_url as_bot original_msg original_message_obj =
     (let event0 = (if as_bot
                    then Wrapped (wrapper_init (VRef original_event) (VStr (bot_user_id self)))
                    else Real original_event);
          message_str = (if args \<noteq> [] then cp ''/'' @ actual_command @ cp '' '' @ args
                         else cp ''/'' @ actual_command)
      in case event_setattr (store W) event0 ''message_str'' (VStr message_str) of
           Inl e \<Rightarrow> (Inl e, W)
         | Inr (hp1, event) \<Rightarrow>
             (let hp2 = (if at_qq_list \<noteq> [] \<or> reply_image_url \<noteq> []
                         then set_message_components L hp1 event actual_command args
                                at_qq_list reply_image_url
                         else hp1);
                  callable = handler_callable (info_handler handler_info)
              in case run_handler (call_handler H callable hp2 event)
                        (call_handler H callable hp2 event) of
                   Inl e \<Rightarrow> (Inl e, W\<lparr>store := hp2\<rparr>)
                 | Inr results_to_send \<Rightarrow>
                     (let result_texts = collect_texts results_to_send;
                          result_images = collect_images results_to_send;
                          log' = fan_out H self original_event results_to_send result_texts (sent W)
                      in case py_setattr hp2 (VRef original_event) ''message_str'' original_msg of
                           Inl e \<Rightarrow> (Inl e, \<lparr>store = hp2, sent = log'\<rparr>)
                         | Inr hp3 \<Rightarrow>
                             (case (if original_message_obj \<noteq> VNone
                                    then py_setattr hp3 (VRef original_event) ''message_obj''
                                           original_message_obj
                                    else Inr hp3) of
                                Inl e \<Rightarrow> (Inl e, \<lparr>store = hp3, sent = log'\<rparr>)
                              | Inr hp4 \<Rightarrow>
                                  (Inr (build_response actual_command args result_texts
                                          result_images as_bot),
                                   \<lparr>store = hp4, sent = log'\<rparr>)))))"

text \<open>
  The \<open>except\<close> clause: \<open>event.message_str = original_msg\<close> on the original event, inside
  its own \<open>try\<close>; nothing else is restored there.
\<close>

definition except_restore :: "world \<Rightarrow> nat \<Rightarrow> val \<Rightarrow> world" where
  "except_restore W original_event original_msg =
     (case py_setattr (store W) (VRef original_event) ''message_str'' original_msg of
        Inl e \<Rightarrow> W
      | Inr hp \<Rightarrow> W\<lparr>store := hp\<rparr>)"

text \<open>
  \<open>kwargs.get(k, '').strip()\<close>: the default stands in only for a missing key; a value
  that is no string has no \<open>strip\<close> and the call raises \<open>AttributeError\<close>.
\<close>

definition kw_str :: "arg option \<Rightarrow> exn + pystr" where
  "kw_str v =
     (case v of
        None \<Rightarrow> Inr (strip [])
      | Some (StrArg s) \<Rightarrow> Inr (strip s)
      | Some NonStrArg \<Rightarrow> Inl (attribute_error ''strip''))"

text \<open>
  \<open>execute_command\<close>, on the plugin state and the world. The result is the payload, or
  the exception that leaves the function: the three \<open>strip\<close> calls of the first lines
  and the reading of \<open>event.message_str\<close> stand outside the \<open>try\<close>.
\<close>

definition execute_command ::
  "host \<Rightarrow> lib \<Rightarrow> plugin_state \<Rightarrow> world \<Rightarrow> nat \<Rightarrow> kwargs \<Rightarrow>
   (exn + response) \<times> plugin_state \<times> world" where
  "execute_command H L self W event kw =
     (case kw_str (kw_command kw) of
        Inl e \<Rightarrow> (Inl e, self, W)
      | Inr command0 \<Rightarrow>
     (case kw_str (kw_args kw) of
        Inl e \<Rightarrow> (Inl e, self, W)
      | Inr args \<Rightarrow>
     (let at_qq_list = (case kw_at_qq_list kw of None \<Rightarrow> [] | Some l \<Rightarrow> l)
      in case kw_str (kw_reply_image_url kw) of
        Inl e \<Rightarrow> (Inl e, self, W)
      | Inr reply_image_url \<Rightarrow>
     (let as_bot = (case kw_as_bot kw of None \<Rightarrow> False | Some b \<Rightarrow> b)
      in if command0 = [] then (Inr (Failure None MissingCommand), self, W)
         else
           (let self1 = (if handler_cache self = Map.empty then build_handler_cache H self
                         else self)
            in case can_execute H self1 command0 event of
                 (False, reason) \<Rightarrow> (Inr (Failure None (Denied reason)), self1, W)
               | (True, reason) \<Rightarrow>
                   (let command = strip_slash command0;
                        actual_command = resolve_alias self1 command
                    in case handler_cache self1 actual_command of
                         None \<Rightarrow> (Inr (Failure None (CommandNotFound command)), self1, W)
                       | Some handler_info \<Rightarrow>
                           (case get_plugin_instance H (info_module_path handler_info) of
                              None \<Rightarrow> (Inr (Failure None (NoPluginInstance command)), self1, W)
                            | Some plugin_instance \<Rightarrow>
                                (case py_getattr (store W) (VRef event) ''message_str'' of
                                   Inl e \<Rightarrow> (Inl e, self1, W)
                                 | Inr original_msg \<Rightarrow>
                                     (let original_message_obj =
                                            (case py_getattr (store W) (VRef event) ''message_obj'' of
                                               Inl e \<Rightarrow> VNone
                                             | Inr v \<Rightarrow> v)
                                      in case try_body H L self1 W event handler_info
                                                actual_command args at_qq_list reply_image_url
                                                as_bot original_msg original_message_obj of
                                           (Inr resp, W') \<Rightarrow> (Inr resp, self1, W')
                                         | (Inl e, W') \<Rightarrow>
                                             (Inr (Failure (Some actual_command) (ExecutionFailed e)),
                                              self1, except_restore W' event original_msg))))))))))"

section \<open>Notions used in the statements\<close>

text \<open>
  The names a handler declares: the name of every command filter and of every
  command-group filter among its filters, in order.
\<close>

fun declared_names :: "event_filter list \<Rightarrow> pystr list" where
  "declared_names [] = []"
| "declared_names (CommandFilter n a # fs) = n # declared_names fs"
| "declared_names (CommandGroupFilter g # fs) = g # declared_names fs"
| "declared_names (PermissionTypeFilter # fs) = declared_names fs"
| "declared_names (OtherFilter # fs) = declared_names fs"

text \<open>
  The key a handler is indexed under: its last declared name without the prefix, when
  the name as declared is not empty (a name that is the prefix alone gives the empty
  key).
\<close>

definition indexed_name :: "event_filter list \<Rightarrow> pystr option" where
  "indexed_name fs =
     (if declared_names fs = [] then None
      else if last (declared_names fs) = [] then None
      else Some (strip_slash (last (declared_names fs))))"

text \<open>
  The module paths of the extensions that are listed, active, not in the skip set and
  have a non-empty module path; none when the listing fails.
\<close>

definition eligible_modules :: "host \<Rightarrow> pystr set" where
  "eligible_modules H =
     (case get_all_stars H of
        None \<Rightarrow> {}
      | Some stars \<Rightarrow>
          {mp. \<exists>s \<in> set stars. activated s \<and> plugin_name_of s \<notin> set skip_plugins \<and>
                 module_path s = Some mp \<and> mp \<noteq> []})"

definition indexed_names :: "host \<Rightarrow> pystr set" where
  "indexed_names H =
     {c. \<exists>h. Metadata h \<in> set (star_handlers_registry H) \<and>
              handler_module_path h \<in> eligible_modules H \<and>
              indexed_name (event_filters h) = Some c}"

text \<open>
  The index as the specification words it: every (prefix-stripped) declared name of
  every handler whose module is that of an active extension outside the skip set.
\<close>

definition claimed_index :: "host \<Rightarrow> pystr set" where
  "claimed_index H =
     {c. \<exists>h n stars s. Metadata h \<in> set (star_handlers_registry H) \<and>
           get_all_stars H = Some stars \<and> s \<in> set stars \<and> activated s \<and>
           plugin_name_of s \<notin> set skip_plugins \<and>
           module_path s = Some (handler_module_path h) \<and>
           n \<in> set (declared_names (event_filters h)) \<and> c = strip_slash n}"

text \<open>
  A registry entry declares the alias key \<open>k\<close>, relative to the modules \<open>M\<close> whose
  handlers are indexed: it is a handler of one of these modules that is indexed and
  has an alias whose prefix-stripped form is \<open>k\<close>.
\<close>

definition declares_alias :: "pystr set \<Rightarrow> registry_entry \<Rightarrow> pystr \<Rightarrow> bool" where
  "declares_alias M entry k =
     (case entry of
        NotMetadata \<Rightarrow> False
      | Metadata h \<Rightarrow>
          handler_module_path h \<in> M \<and>
          (case scan_filters (event_filters h) (None, [], False) of
             (None, als, adm) \<Rightarrow> False
           | (Some n, als, adm) \<Rightarrow> n \<noteq> [] \<and> k \<in> strip_slash ` set als))"

text \<open>Two invariants of the scan, on the records and on the alias index.\<close>

definition records_from :: "(pystr \<rightharpoonup> star \<times> pystr) \<Rightarrow> plugin_state \<Rightarrow> bool" where
  "records_from m self =
     (\<forall>c r. handler_cache self c = Some r \<longrightarrow>
        info_command r = c \<and> (\<exists>s. m (info_module_path r) = Some (s, info_plugin r)))"

definition aliases_closed :: "plugin_state \<Rightarrow> bool" where
  "aliases_closed self =
     (\<forall>a c. alias_to_command self a = Some c \<longrightarrow> c \<in> dom (handler_cache self))"

text \<open>
  The snapshot of the index under the comparison of the specification: per canonical
  name, the name, the description, the set of aliases and the admin flag.
\<close>

definition snapshot ::
  "plugin_state \<Rightarrow> pystr \<Rightarrow> (pystr \<times> pystr \<times> pystr set \<times> bool) option" where
  "snapshot self c =
     (case handler_cache self c of
        None \<Rightarrow> None
      | Some r \<Rightarrow> Some (info_command r, info_description r, set (info_aliases r), info_is_admin r))"

text \<open>The event variable of \<open>execute_command\<close> inside the \<open>try\<close>.\<close>

definition event_of :: "nat \<Rightarrow> plugin_state \<Rightarrow> bool \<Rightarrow> event_handle" where
  "event_of e self as_bot =
     (if as_bot then Wrapped (wrapper_init (VRef e) (VStr (bot_user_id self))) else Real e)"

section \<open>Concrete inputs\<close>

text \<open>
  The two commands of the specification's examples, by their code points: the mute
  command (U+7981 U+8A00) and the check-in command (U+7B7E U+5230). One extension
  declares both; the mute command has the alias \<open>/mute\<close> and a permission filter.
\<close>

definition cmd_mute :: pystr where
  "cmd_mute = [0x7981, 0x8A00]"

definition cmd_checkin :: pystr where
  "cmd_checkin = [0x7B7E, 0x5230]"

definition admin_star :: star where
  "admin_star =
     \<lparr>star_name = Some (cp ''group_admin''), module_path = Some (cp ''plugins.group_admin''),
      activated = True, star_cls = Some 1\<rparr>"

definition mute_handler :: handler_metadata where
  "mute_handler =
     \<lparr>handler_module_path = cp ''plugins.group_admin'', desc = [],
      event_filters = [CommandFilter cmd_mute (AliasSet [cp ''/mute'']), PermissionTypeFilter],
      handler_callable = 7\<rparr>"

definition checkin_handler :: handler_metadata where
  "checkin_handler =
     \<lparr>handler_module_path = cp ''plugins.group_admin'', desc = cp ''daily check-in'',
      event_filters = [CommandFilter cmd_checkin NoAlias],
      handler_callable = 8\<rparr>"

definition demo_host :: host where
  "demo_host =
     \<lparr>get_all_stars = Some [admin_star],
      star_handlers_registry = [Metadata mute_handler, Metadata checkin_handler],
      sender_id_of = (\<lambda>e. cp ''10001''),
      platform_name_of = (\<lambda>e. cp ''aiocqhttp''),
      self_id_of = (\<lambda>e. cp ''20002''),
      send_raises = (\<lambda>k p. None),
      call_handler = (\<lambda>c hp ev. AsyncGen [] None)\<rparr>"

definition demo_lib :: lib where
  "demo_lib =
     \<lparr>at_raises = (\<lambda>q. None), image_fromURL = (\<lambda>u. Built (Image (Some u) None)),
      special_names = [''getstate'']\<rparr>"

definition demo_plugin :: plugin_state where
  "demo_plugin =
     \<lparr>enabled = True, whitelist = [], blacklist = [], allow_admin_commands = False,
      admin_users = [cp ''10001''], bot_user_id = cp ''bot_self'', enable_forward = True,
      forward_threshold = 1500, handler_cache = Map.empty, alias_to_command = Map.empty\<rparr>"

definition demo_indexed :: plugin_state where
  "demo_indexed = build_handler_cache demo_host demo_plugin"

definition mute_info :: handler_info where
  "mute_info =
     \<lparr>info_command = cmd_mute, info_description = no_description,
      info_plugin = cp ''group_admin'', info_aliases = [cp ''/mute''], info_is_admin = True,
      info_handler = mute_handler, info_module_path = cp ''plugins.group_admin''\<rparr>"

definition checkin_info :: handler_info where
  "checkin_info =
     \<lparr>info_command = cmd_checkin, info_description = cp ''daily check-in'',
      info_plugin = cp ''group_admin'', info_aliases = [], info_is_admin = False,
      info_handler = checkin_handler, info_module_path = cp ''plugins.group_admin''\<rparr>"

text \<open>
  An event at address 0 whose \<open>message_obj\<close> is the object at address 1, and a call
  that mutes user 123 for 60.
\<close>

definition demo_event :: obj where
  "demo_event = [''message_str'' \<mapsto> VStr (cp ''mute him''), ''message_obj'' \<mapsto> VRef 1]"

definition demo_message_obj :: obj where
  "demo_message_obj = [''message'' \<mapsto> VComps [Plain (cp ''mute him'')]]"

definition demo_world :: world where
  "demo_world = \<lparr>store = [0 \<mapsto> demo_event, 1 \<mapsto> demo_message_obj], sent = []\<rparr>"

definition mute_kwargs :: kwargs where
  "mute_kwargs =
     \<lparr>kw_command = Some (StrArg cmd_mute), kw_args = Some (StrArg (cp ''60'')),
      kw_at_qq_list = Some [cp ''123''], kw_reply_image_url = None, kw_as_bot = None\<rparr>"

definition mute_components :: "comp list" where
  "mute_components = [Plain (cp ''/'' @ cmd_mute), At (cp ''123''), Plain (cp '' 60'')]"

text \<open>The same host with a handler that raises.\<close>

definition failing_host :: host where
  "failing_host = demo_host\<lparr>call_handler := (\<lambda>c hp ev. CallRaises (Exn OtherErr (cp ''boom'')))\<rparr>"

text \<open>A handler that stacks a command filter and a command-group filter.\<close>

definition stacked_handler :: handler_metadata where
  "stacked_handler =
     \<lparr>handler_module_path = cp ''plugins.group_admin'', desc = [],
      event_filters = [CommandFilter (cp ''a'') NoAlias, CommandGroupFilter (cp ''g'')],
      handler_callable = 9\<rparr>"

definition stacked_host :: host where
  "stacked_host = demo_host\<lparr>star_handlers_registry := [Metadata stacked_handler]\<rparr>"

text \<open>A second handler of the same extension that declares the alias of the first.\<close>

definition kick_handler :: handler_metadata where
  "kick_handler =
     \<lparr>handler_module_path = cp ''plugins.group_admin'', desc = cp ''remove a member'',
      event_filters = [CommandFilter (cp ''kick'') (AliasSet [cp ''mute''])],
      handler_callable = 10\<rparr>"

definition kick_info :: handler_info where
  "kick_info =
     \<lparr>info_command = cp ''kick'', info_description = cp ''remove a member'',
      info_plugin = cp ''group_admin'', info_aliases = [cp ''mute''], info_is_admin = False,
      info_handler = kick_handler, info_module_path = cp ''plugins.group_admin''\<rparr>"

definition colliding_host :: host where
  "colliding_host =
     demo_host\<lparr>star_handlers_registry := [Metadata mute_handler, Metadata kick_handler]\<rparr>"

text \<open>A call whose command is blank, and the same call with \<open>args=None\<close>.\<close>

definition blank_kwargs :: kwargs where
  "blank_kwargs =
     \<lparr>kw_command = Some (StrArg (cp ''   '')), kw_args = None, kw_at_qq_list = None,
      kw_reply_image_url = None, kw_as_bot = None\<rparr>"

definition blank_null_kwargs :: kwargs where
  "blank_null_kwargs = blank_kwargs\<lparr>kw_args := Some NonStrArg\<rparr>"

section \<open>The message synthesizer on the examples of the specification\<close>

text \<open>
  Claim C3. On the three inputs the specification fixes, the synthesizer gives the
  segment lists it fixes: placeholder mode and trailing mode both give the command,
  the mention of 123 and the text " 60"; the check-in command without arguments and
  mentions gives the command alone. The mention is built when \<open>At\<close> does not raise
  for "123".
\<close>

theorem synthesizer_examples:
  assumes "at_raises L (cp ''123'') = None"
  shows "build_message_components L cmd_mute (cp ''@0 60'') [cp ''123''] None = Inr mute_components \<and>
         build_message_components L cmd_mute (cp ''60'') [cp ''123''] None = Inr mute_components \<and>
         build_message_components L cmd_checkin [] [] None = Inr [Plain (cp ''/'' @ cmd_checkin)]"
  using assms
  by (simp add: build_message_components_def reply_part_def message_part_def has_placeholders_def
      cp_def str_of_nat.simps split_def py_isspace_def is_placeholder_def isdigit_def is_digit_cp_def
      int_of_digits_def flush_def mute_components_def)

text \<open>A library whose \<open>At\<close> never raises.\<close>

theorem synthesizer_examples_witness:
  "at_raises demo_lib (cp ''123'') = None \<and>
   build_message_components demo_lib cmd_mute (cp ''@0 60'') [cp ''123''] None = Inr mute_components \<and>
   build_message_components demo_lib cmd_mute (cp ''60'') [cp ''123''] None = Inr mute_components \<and>
   build_message_components demo_lib cmd_checkin [] [] None = Inr [Plain (cp ''/'' @ cmd_checkin)]"
proof -
  have h: "at_raises demo_lib (cp ''123'') = None" by (simp add: demo_lib_def)
  from synthesizer_examples[OF h] h show ?thesis by simp
qed

section \<open>The handler index\<close>

lemma scan_filters_name:
  "fst (scan_filters fs (cn, als, adm)) =
     (if declared_names fs = [] then cn else Some (last (declared_names fs)))"
  by (induction fs "(cn, als, adm)" arbitrary: cn als adm rule: scan_filters.induct) auto

lemma dom_build_module_to_star:
  "dom (build_module_to_star stars m) =
     dom m \<union> {mp. \<exists>s \<in> set stars. plugin_name_of s \<notin> set skip_plugins \<and>
                 module_path s = Some mp \<and> mp \<noteq> []}"
  by (induction stars arbitrary: m) (auto split: option.splits)

lemma module_to_star_entries:
  "build_module_to_star stars m mp = Some (s, pn) \<Longrightarrow>
   m mp = Some (s, pn) \<or>
         (s \<in> set stars \<and> pn = plugin_name_of s \<and> pn \<notin> set skip_plugins \<and>
          module_path s = Some mp \<and> mp \<noteq> [])"
proof (induction stars arbitrary: m)
  case Nil
  then show ?case by simp
next
  case (Cons a stars)
  show ?case
  proof (cases "module_path a")
    case None
    then show ?thesis using Cons.IH[of m] Cons.prems by auto
  next
    case (Some x)
    show ?thesis
    proof (cases "plugin_name_of a \<in> set skip_plugins \<or> x = []")
      case True
      then show ?thesis using Cons.IH[of m] Cons.prems Some by auto
    next
      case False
      then have "build_module_to_star stars (m(x \<mapsto> (a, plugin_name_of a))) mp = Some (s, pn)"
        using Cons.prems Some by simp
      from Cons.IH[OF this] show ?thesis
        using False Some by (auto split: if_splits)
    qed
  qed
qed

lemma index_handler_cache_dom:
  "dom (handler_cache (index_handler m entry self)) =
     dom (handler_cache self) \<union>
     {c. \<exists>h. entry = Metadata h \<and> handler_module_path h \<in> dom m \<and>
              indexed_name (event_filters h) = Some c}"
proof (cases entry)
  case NotMetadata
  then show ?thesis by (simp add: index_handler_def)
next
  case (Metadata h)
  obtain cn als adm where sf: "scan_filters (event_filters h) (None, [], False) = (cn, als, adm)"
    by (cases "scan_filters (event_filters h) (None, [], False)") auto
  have cn: "cn = (if declared_names (event_filters h) = [] then None
                  else Some (last (declared_names (event_filters h))))"
    using scan_filters_name[of "event_filters h" None "[]" False] sf by simp
  show ?thesis
    using Metadata sf cn
    by (auto simp: index_handler_def indexed_name_def Let_def split: option.splits if_splits)
qed

lemma scan_registry_cache_dom:
  "dom (handler_cache (scan_registry m entries self)) =
     dom (handler_cache self) \<union>
     {c. \<exists>h. Metadata h \<in> set entries \<and> handler_module_path h \<in> dom m \<and>
              indexed_name (event_filters h) = Some c}"
proof (induction entries arbitrary: self)
  case Nil
  then show ?case by simp
next
  case (Cons e es)
  show ?case
    unfolding scan_registry.simps Cons.IH index_handler_cache_dom
    by auto
qed

lemma build_dom:
  "dom (handler_cache (build_handler_cache H self)) = indexed_names H"
proof (cases "get_all_stars H")
  case None
  then show ?thesis
    by (simp add: build_handler_cache_def clear_index_def indexed_names_def eligible_modules_def)
next
  case (Some stars)
  have em: "eligible_modules H = dom (build_module_to_star (filter activated stars) Map.empty)"
    unfolding dom_build_module_to_star using Some
    by (auto simp: eligible_modules_def)
  show ?thesis
  proof (cases "filter activated stars = []")
    case True
    have "eligible_modules H = {}" using em True by simp
    then show ?thesis using Some True
      by (simp add: build_handler_cache_def clear_index_def indexed_names_def)
  next
    case False
    then show ?thesis using Some
      by (simp add: build_handler_cache_def clear_index_def indexed_names_def em scan_registry_cache_dom)
  qed
qed

lemma index_aliases_cases:
  "index_aliases als cn m a = Some c \<Longrightarrow> m a = Some c \<or> c = cn"
proof (induction als arbitrary: m)
  case Nil
  then show ?case by simp
next
  case (Cons x xs)
  from Cons.prems have "index_aliases xs cn (m(strip_slash x \<mapsto> cn)) a = Some c" by simp
  from Cons.IH[OF this] show ?case by (auto split: if_splits)
qed

lemma index_aliases_registered:
  "alias \<in> set als \<Longrightarrow> index_aliases als cn m (strip_slash alias) = Some cn"
proof (induction als arbitrary: m)
  case Nil
  then show ?case by simp
next
  case (Cons x xs)
  have keep: "\<And>m'. m' (strip_slash alias) = Some cn \<Longrightarrow>
                 index_aliases xs cn m' (strip_slash alias) = Some cn"
  proof -
    fix m' :: "pystr \<rightharpoonup> pystr"
    assume "m' (strip_slash alias) = Some cn"
    then show "index_aliases xs cn m' (strip_slash alias) = Some cn"
      by (induction xs arbitrary: m') auto
  qed
  show ?case
  proof (cases "alias \<in> set xs")
    case True
    then show ?thesis using Cons.IH by simp
  next
    case False
    then have "alias = x" using Cons.prems by simp
    then show ?thesis using keep by simp
  qed
qed

lemma index_handler_records_from:
  "records_from m self \<Longrightarrow> records_from m (index_handler m entry self)"
  by (cases entry)
     (auto simp: index_handler_def records_from_def Let_def split: option.splits prod.splits if_splits)

lemma index_handler_aliases_closed:
  "aliases_closed self \<Longrightarrow> aliases_closed (index_handler m entry self)"
  by (cases entry)
     (auto simp: index_handler_def aliases_closed_def Let_def
           split: option.splits prod.splits if_splits dest!: index_aliases_cases)

lemma scan_registry_records_from:
  "records_from m self \<Longrightarrow> records_from m (scan_registry m entries self)"
  by (induction entries arbitrary: self) (auto intro: index_handler_records_from)

lemma scan_registry_aliases_closed:
  "aliases_closed self \<Longrightarrow> aliases_closed (scan_registry m entries self)"
  by (induction entries arbitrary: self) (auto intro: index_handler_aliases_closed)

lemma clear_index_inv: "aliases_closed (clear_index self)" "records_from m (clear_index self)"
  by (simp_all add: aliases_closed_def records_from_def clear_index_def)

lemma build_aliases_closed: "aliases_closed (build_handler_cache H self)"
  by (auto simp: build_handler_cache_def Let_def clear_index_inv split: option.splits
           intro!: scan_registry_aliases_closed)

lemma build_records_from:
  "get_all_stars H = Some stars \<Longrightarrow>
   records_from (build_module_to_star (filter activated stars) Map.empty) (build_handler_cache H self)"
  by (auto simp: build_handler_cache_def Let_def clear_index_inv intro!: scan_registry_records_from)

lemma build_None: "get_all_stars H = None \<Longrightarrow> build_handler_cache H self = clear_index self"
  by (simp add: build_handler_cache_def)

lemma build_records_command:
  assumes a: "handler_cache (build_handler_cache H self) c = Some r"
  shows "info_command r = c"
proof (cases "get_all_stars H")
  case None
  then show ?thesis using a by (simp add: build_None clear_index_def)
next
  case (Some stars)
  from build_records_from[OF this, of self] a show ?thesis by (auto simp: records_from_def)
qed

lemma build_records_plugin:
  assumes a: "handler_cache (build_handler_cache H self) c = Some r"
  shows "\<exists>stars s. get_all_stars H = Some stars \<and> s \<in> set stars \<and> activated s \<and>
           plugin_name_of s = info_plugin r \<and> info_plugin r \<notin> set skip_plugins \<and>
           module_path s = Some (info_module_path r)"
proof (cases "get_all_stars H")
  case None
  then show ?thesis using a by (simp add: build_None clear_index_def)
next
  case (Some stars)
  from build_records_from[OF this, of self] a obtain s where
        "build_module_to_star (filter activated stars) Map.empty (info_module_path r)
           = Some (s, info_plugin r)"
    by (auto simp: records_from_def)
  from module_to_star_entries[OF this] show ?thesis using Some by auto
qed

lemma clear_index_idem [simp]: "clear_index (clear_index self) = clear_index self"
  by (simp add: clear_index_def)

lemma index_handler_config: "clear_index (index_handler m e self) = clear_index self"
  by (cases e) (auto simp: index_handler_def clear_index_def Let_def split: option.splits prod.splits)

lemma scan_registry_config: "clear_index (scan_registry m entries self) = clear_index self"
  by (induction entries arbitrary: self) (auto simp: index_handler_config)

lemma build_config: "clear_index (build_handler_cache H self) = clear_index self"
  by (auto simp: build_handler_cache_def Let_def scan_registry_config split: option.splits)

lemma build_ignores_index:
  "build_handler_cache H (self\<lparr>handler_cache := hc, alias_to_command := ac\<rparr>)
     = build_handler_cache H self"
  by (simp add: build_handler_cache_def clear_index_def)

lemma build_idem: "build_handler_cache H (build_handler_cache H self) = build_handler_cache H self"
  unfolding build_handler_cache_def[of H "build_handler_cache H self"] build_config
  by (simp add: build_handler_cache_def)


lemma no_filter_not_indexed:
  "declared_names (event_filters h) = [] \<Longrightarrow> index_handler m (Metadata h) self = self"
proof -
  assume d: "declared_names (event_filters h) = []"
  obtain cn als adm where sf: "scan_filters (event_filters h) (None, [], False) = (cn, als, adm)"
    by (cases "scan_filters (event_filters h) (None, [], False)") auto
  have "cn = None"
    using scan_filters_name[of "event_filters h" None "[]" False] sf d by simp
  then show ?thesis using sf
    by (simp add: index_handler_def split: option.splits)
qed

lemma index_aliases_dom:
  "dom (index_aliases als cn m) = dom m \<union> strip_slash ` set als"
  by (induction als arbitrary: m) auto

lemma index_handler_alias_mono:
  "dom (alias_to_command self) \<subseteq> dom (alias_to_command (index_handler m e self))"
  by (cases e)
     (auto simp: index_handler_def Let_def index_aliases_dom split: option.splits prod.splits)

lemma scan_registry_alias_mono:
  "dom (alias_to_command self) \<subseteq> dom (alias_to_command (scan_registry m entries self))"
proof (induction entries arbitrary: self)
  case Nil
  then show ?case by simp
next
  case (Cons e es)
  show ?case
    using index_handler_alias_mono[of self m e] Cons.IH[of "index_handler m e self"]
    by auto
qed

lemma index_handler_registers:
  assumes "m (handler_module_path h) = Some x"
    and "scan_filters (event_filters h) (None, [], False) = (Some n, als, adm)"
    and "n \<noteq> []" and "alias \<in> set als"
  shows "strip_slash alias \<in> dom (alias_to_command (index_handler m (Metadata h) self))"
proof -
  obtain s pn where x: "x = (s, pn)" by (cases x)
  have "strip_slash alias \<in> dom (index_aliases als (strip_slash n) (alias_to_command self))"
    using assms(4) by (simp add: index_aliases_dom)
  then show ?thesis using assms x
    by (simp add: index_handler_def Let_def)
qed

lemma scan_registry_registers:
  assumes "Metadata h \<in> set entries" and "m (handler_module_path h) = Some x"
    and "scan_filters (event_filters h) (None, [], False) = (Some n, als, adm)"
    and "n \<noteq> []" and "alias \<in> set als"
  shows "strip_slash alias \<in> dom (alias_to_command (scan_registry m entries self))"
  using assms(1)
proof (induction entries arbitrary: self)
  case Nil
  then show ?case by simp
next
  case (Cons e es)
  show ?case
  proof (cases "Metadata h \<in> set es")
    case True
    then show ?thesis using Cons.IH by simp
  next
    case False
    then have e: "e = Metadata h" using Cons.prems by simp
    have "strip_slash alias \<in> dom (alias_to_command (index_handler m e self))"
      unfolding e using assms(2-5) by (rule index_handler_registers)
    then show ?thesis
      using scan_registry_alias_mono[of "index_handler m e self" m es] by auto
  qed
qed

lemma eligible_modules_dom:
  "get_all_stars H = Some stars \<Longrightarrow>
   eligible_modules H = dom (build_module_to_star (filter activated stars) Map.empty)"
  unfolding dom_build_module_to_star by (auto simp: eligible_modules_def)

lemma build_registers:
  assumes "Metadata h \<in> set (star_handlers_registry H)"
    and "handler_module_path h \<in> eligible_modules H"
    and "scan_filters (event_filters h) (None, [], False) = (Some n, als, adm)"
    and "n \<noteq> []" and "alias \<in> set als"
  shows "strip_slash alias \<in> dom (alias_to_command (build_handler_cache H self))"
proof (cases "get_all_stars H")
  case None
  then show ?thesis using assms(2) by (simp add: eligible_modules_def)
next
  case (Some stars)
  let ?m = "build_module_to_star (filter activated stars) Map.empty"
  from assms(2) eligible_modules_dom[OF Some]
  obtain x where x: "?m (handler_module_path h) = Some x" by auto
  have ne: "filter activated stars \<noteq> []"
  proof
    assume "filter activated stars = []"
    then have "?m = Map.empty" by simp
    then show False using x by simp
  qed
  have "strip_slash alias \<in> dom (alias_to_command
          (scan_registry ?m (star_handlers_registry H) (clear_index self)))"
    using assms(1) x assms(3-5) by (rule scan_registry_registers)
  then show ?thesis using Some ne by (simp add: build_handler_cache_def)
qed

section \<open>The index of the concrete host\<close>

lemma demo_names:
  "cmd_mute \<noteq> cmd_checkin" "cmd_checkin \<noteq> cmd_mute" "cp ''mute'' \<noteq> cmd_mute"
  "cp ''mute'' \<noteq> cmd_checkin" "cmd_mute \<noteq> cp ''mute''" "cmd_checkin \<noteq> cp ''mute''"
  "cmd_mute \<noteq> []" "cmd_checkin \<noteq> []"
  "strip_slash cmd_mute = cmd_mute" "strip_slash cmd_checkin = cmd_checkin"
  "strip_slash (cp ''/mute'') = cp ''mute''" "strip_slash (cp ''mute'') = cp ''mute''"
  by (simp_all add: cmd_mute_def cmd_checkin_def cp_def strip_slash_def)

lemma demo_index:
  "demo_indexed =
     demo_plugin\<lparr>handler_cache := [cmd_mute \<mapsto> mute_info, cmd_checkin \<mapsto> checkin_info],
                 alias_to_command := [cp ''mute'' \<mapsto> cmd_mute]\<rparr>"
proof -
  have m: "build_module_to_star [admin_star] Map.empty
             = [cp ''plugins.group_admin'' \<mapsto> (admin_star, cp ''group_admin'')]"
    by (simp add: admin_star_def plugin_name_of_def skip_plugins_def cp_def)
  have a: "activated admin_star" by (simp add: admin_star_def)
  have i1: "index_handler [cp ''plugins.group_admin'' \<mapsto> (admin_star, cp ''group_admin'')]
              (Metadata mute_handler) (clear_index demo_plugin)
            = demo_plugin\<lparr>handler_cache := [cmd_mute \<mapsto> mute_info],
                          alias_to_command := [cp ''mute'' \<mapsto> cmd_mute]\<rparr>"
    by (simp add: index_handler_def mute_handler_def read_alias_def demo_names Let_def
                  clear_index_def mute_info_def demo_plugin_def)
  have i2: "index_handler [cp ''plugins.group_admin'' \<mapsto> (admin_star, cp ''group_admin'')]
              (Metadata checkin_handler)
              (demo_plugin\<lparr>handler_cache := [cmd_mute \<mapsto> mute_info],
                          alias_to_command := [cp ''mute'' \<mapsto> cmd_mute]\<rparr>)
            = demo_plugin\<lparr>handler_cache := [cmd_mute \<mapsto> mute_info, cmd_checkin \<mapsto> checkin_info],
                          alias_to_command := [cp ''mute'' \<mapsto> cmd_mute]\<rparr>"
    by (simp add: index_handler_def checkin_handler_def read_alias_def demo_names Let_def
                  checkin_info_def demo_plugin_def cp_def no_description_def)
  have f: "filter activated [admin_star] = [admin_star]" using a by simp
  have g: "get_all_stars demo_host = Some [admin_star]"
    "star_handlers_registry demo_host = [Metadata mute_handler, Metadata checkin_handler]"
    by (simp_all add: demo_host_def)
  show ?thesis
    unfolding demo_indexed_def build_handler_cache_def g Let_def
    by (simp only: option.case f m scan_registry.simps i1 i2 list.distinct if_False)
qed

lemma demo_lookups:
  "handler_cache demo_indexed cmd_mute = Some mute_info"
  "handler_cache demo_indexed cmd_checkin = Some checkin_info"
  "alias_to_command demo_indexed (cp ''mute'') = Some cmd_mute"
  "alias_to_command demo_indexed cmd_mute = None"
  "alias_to_command demo_indexed cmd_checkin = None"
  "handler_cache demo_indexed \<noteq> Map.empty"
  by (simp_all add: demo_index demo_names)

lemma demo_config:
  "enabled demo_indexed" "whitelist demo_indexed = []" "blacklist demo_indexed = []"
  "\<not> allow_admin_commands demo_indexed" "admin_users demo_indexed = [cp ''10001'']"
  "bot_user_id demo_indexed = cp ''bot_self''" "enable_forward demo_indexed"
  "forward_threshold demo_indexed = 1500"
  by (simp_all add: demo_index) (simp_all add: demo_plugin_def)

section \<open>Claims on the handler index\<close>

text \<open>
  Claim C5, as amended. After every rebuild the keys of the index are exactly the
  names \<open>indexed_names\<close>: for each registry handler whose module path is that of a
  listed, active extension outside the skip set (with a non-empty module path), the
  name of its last command or command-group filter, prefix-stripped, when the name
  as the filter gives it is not empty; when the listing of the extensions fails the
  index is empty. Every
  record of the index is stored under its own command name and belongs to an active
  extension that is not in the skip set. A handler with neither a command filter nor
  a command-group filter leaves the index as it is.
\<close>

theorem index_contents:
  "dom (handler_cache (build_handler_cache H self)) = indexed_names H \<and>
   (handler_cache (build_handler_cache H self) c = Some r \<longrightarrow>
      info_command r = c \<and> info_plugin r \<notin> set skip_plugins \<and>
      info_module_path r \<in> eligible_modules H) \<and>
   (declared_names (event_filters h) = [] \<longrightarrow> index_handler m (Metadata h) S = S)"
proof (intro conjI impI)
  show "dom (handler_cache (build_handler_cache H self)) = indexed_names H"
    by (rule build_dom)
next
  assume a: "handler_cache (build_handler_cache H self) c = Some r"
  show "info_command r = c" using a by (rule build_records_command)
  from build_records_plugin[OF a] obtain stars s where
    s: "get_all_stars H = Some stars" "s \<in> set stars" "activated s"
       "plugin_name_of s = info_plugin r" "info_plugin r \<notin> set skip_plugins"
       "module_path s = Some (info_module_path r)"
    by blast
  show "info_plugin r \<notin> set skip_plugins" by (rule s(5))
  have "c \<in> dom (handler_cache (build_handler_cache H self))" using a by auto
  have "info_module_path r \<noteq> []"
  proof -
    from build_records_from[OF s(1), of self] a obtain s' where
      "build_module_to_star (filter activated stars) Map.empty (info_module_path r)
         = Some (s', info_plugin r)"
      by (auto simp: records_from_def)
    from module_to_star_entries[OF this] show ?thesis by auto
  qed
  then show "info_module_path r \<in> eligible_modules H"
    using s by (auto simp: eligible_modules_def)
next
  assume "declared_names (event_filters h) = []"
  then show "index_handler m (Metadata h) S = S" by (rule no_filter_not_indexed)
qed

text \<open>
  On the concrete host the mute command is indexed, under its own name and for an
  extension outside the skip set; a handler of the same extension with a permission
  filter only is not.
\<close>

theorem index_contents_witness:
  "cmd_mute \<in> indexed_names demo_host \<and> info_command mute_info = cmd_mute \<and>
   info_plugin mute_info \<notin> set skip_plugins \<and>
   info_module_path mute_info \<in> eligible_modules demo_host \<and>
   declared_names [PermissionTypeFilter, OtherFilter] = [] \<and>
   build_module_to_star [admin_star] Map.empty (cp ''plugins.group_admin'')
     = Some (admin_star, cp ''group_admin'') \<and>
   index_handler (build_module_to_star [admin_star] Map.empty)
     (Metadata (mute_handler\<lparr>event_filters := [PermissionTypeFilter, OtherFilter]\<rparr>)) demo_plugin
     = demo_plugin"
proof -
  have l: "handler_cache (build_handler_cache demo_host demo_plugin) cmd_mute = Some mute_info"
    using demo_lookups(1) by (simp add: demo_indexed_def)
  have d: "declared_names (event_filters
             (mute_handler\<lparr>event_filters := [PermissionTypeFilter, OtherFilter]\<rparr>)) = []"
    by simp
  have m: "build_module_to_star [admin_star] Map.empty (cp ''plugins.group_admin'')
             = Some (admin_star, cp ''group_admin'')"
    by (simp add: admin_star_def plugin_name_of_def skip_plugins_def cp_def)
  note t = index_contents[of demo_host demo_plugin cmd_mute mute_info
             "mute_handler\<lparr>event_filters := [PermissionTypeFilter, OtherFilter]\<rparr>"
             "build_module_to_star [admin_star] Map.empty" demo_plugin]
  have k: "cmd_mute \<in> dom (handler_cache (build_handler_cache demo_host demo_plugin))"
    using l by auto
  have i: "cmd_mute \<in> indexed_names demo_host" using t k by (simp only:)
  have r: "info_command mute_info = cmd_mute \<and> info_plugin mute_info \<notin> set skip_plugins \<and>
           info_module_path mute_info \<in> eligible_modules demo_host"
    using t l by (simp only: simp_thms)
  have x: "index_handler (build_module_to_star [admin_star] Map.empty)
     (Metadata (mute_handler\<lparr>event_filters := [PermissionTypeFilter, OtherFilter]\<rparr>)) demo_plugin
     = demo_plugin"
    using t d by (simp only: simp_thms)
  have e: "declared_names [PermissionTypeFilter, OtherFilter] = []" by simp
  show ?thesis using i r e m x by (simp only: simp_thms)
qed

text \<open>
  As the claim words it, every declared name is a key. A handler that stacks a command
  filter \<open>a\<close> and a command-group filter \<open>g\<close> is indexed under \<open>g\<close> alone.
\<close>

theorem index_contents_counterexample:
  "dom (handler_cache (build_handler_cache stacked_host demo_plugin)) \<noteq> claimed_index stacked_host"
proof -
  have reg: "star_handlers_registry stacked_host = [Metadata stacked_handler]"
    and stars: "get_all_stars stacked_host = Some [admin_star]"
    by (simp_all add: stacked_host_def demo_host_def)
  have "cp ''a'' \<in> claimed_index stacked_host"
    unfolding claimed_index_def
    apply (rule CollectI)
    apply (rule exI[of _ stacked_handler])
    apply (rule exI[of _ "cp ''a''"])
    apply (rule exI[of _ "[admin_star]"])
    apply (rule exI[of _ admin_star])
    apply (simp add: reg stars admin_star_def stacked_handler_def plugin_name_of_def
             skip_plugins_def cp_def strip_slash_def)
    done
  moreover have "cp ''a'' \<notin> indexed_names stacked_host"
    by (simp add: indexed_names_def reg stacked_handler_def indexed_name_def cp_def strip_slash_def)
  ultimately show ?thesis using build_dom[of stacked_host demo_plugin] by auto
qed

lemma scan_registry_append:
  "scan_registry m (xs @ ys) self = scan_registry m ys (scan_registry m xs self)"
  by (induction xs arbitrary: self) simp_all

lemma index_aliases_other:
  "k \<notin> strip_slash ` set als \<Longrightarrow> index_aliases als cn m k = m k"
  by (induction als arbitrary: m) auto

lemma index_handler_alias_kept:
  assumes "\<not> declares_alias (dom m) entry k"
  shows "alias_to_command (index_handler m entry self) k = alias_to_command self k"
proof (cases entry)
  case NotMetadata
  then show ?thesis by (simp add: index_handler_def)
next
  case (Metadata h)
  obtain cn als adm where sf: "scan_filters (event_filters h) (None, [], False) = (cn, als, adm)"
    by (cases "scan_filters (event_filters h) (None, [], False)") auto
  show ?thesis
  proof (cases "m (handler_module_path h)")
    case None
    then show ?thesis using Metadata by (simp add: index_handler_def)
  next
    case (Some x)
    obtain s pn where x: "x = (s, pn)" by (cases x)
    show ?thesis
    proof (cases cn)
      case None
      then show ?thesis using Metadata Some x sf by (simp add: index_handler_def)
    next
      case cn: (Some n)
      show ?thesis
      proof (cases "n = []")
        case True
        then show ?thesis using Metadata Some x sf cn by (simp add: index_handler_def)
      next
        case False
        have "k \<notin> strip_slash ` set als"
          using assms Metadata Some sf cn False by (auto simp: declares_alias_def)
        then show ?thesis
          using Metadata Some x sf cn False
          by (simp add: index_handler_def Let_def index_aliases_other)
      qed
    qed
  qed
qed

lemma scan_registry_alias_kept:
  "list_all (\<lambda>e. \<not> declares_alias (dom m) e k) entries \<Longrightarrow>
   alias_to_command (scan_registry m entries self) k = alias_to_command self k"
  by (induction entries arbitrary: self) (simp_all add: index_handler_alias_kept)

lemma index_handler_alias_set:
  assumes "m (handler_module_path h) = Some x"
    and "scan_filters (event_filters h) (None, [], False) = (Some n, als, adm)"
    and "n \<noteq> []" and "declared \<in> set als"
  shows "alias_to_command (index_handler m (Metadata h) self) (strip_slash declared)
           = Some (strip_slash n)"
proof -
  obtain s pn where x: "x = (s, pn)" by (cases x)
  show ?thesis using assms x
    by (simp add: index_handler_def Let_def index_aliases_registered)
qed

lemma build_last_declarer:
  assumes reg: "star_handlers_registry H = pre @ Metadata h # post"
    and el: "handler_module_path h \<in> eligible_modules H"
    and sf: "scan_filters (event_filters h) (None, [], False) = (Some n, als, adm)"
    and n: "n \<noteq> []" and d: "declared \<in> set als"
    and later: "list_all (\<lambda>e. \<not> declares_alias (eligible_modules H) e (strip_slash declared)) post"
  shows "alias_to_command (build_handler_cache H self) (strip_slash declared) = Some (strip_slash n)"
proof (cases "get_all_stars H")
  case None
  then show ?thesis using el by (simp add: eligible_modules_def)
next
  case (Some stars)
  let ?m = "build_module_to_star (filter activated stars) Map.empty"
  have em: "eligible_modules H = dom ?m" using Some by (rule eligible_modules_dom)
  from el em obtain x where x: "?m (handler_module_path h) = Some x" by auto
  have ne: "filter activated stars \<noteq> []"
  proof
    assume "filter activated stars = []"
    then have "?m = Map.empty" by simp
    then show False using x by simp
  qed
  have b: "build_handler_cache H self =
             scan_registry ?m post
               (index_handler ?m (Metadata h) (scan_registry ?m pre (clear_index self)))"
    using Some ne reg by (simp add: build_handler_cache_def scan_registry_append Let_def)
  have "alias_to_command (build_handler_cache H self) (strip_slash declared)
          = alias_to_command (index_handler ?m (Metadata h) (scan_registry ?m pre (clear_index self)))
              (strip_slash declared)"
    unfolding b using later unfolding em by (rule scan_registry_alias_kept)
  also have "\<dots> = Some (strip_slash n)"
    using x sf n d by (rule index_handler_alias_set)
  finally show ?thesis .
qed

lemma colliding_index:
  "build_handler_cache colliding_host demo_plugin =
     demo_plugin\<lparr>handler_cache := [cmd_mute \<mapsto> mute_info, cp ''kick'' \<mapsto> kick_info],
                 alias_to_command := [cp ''mute'' \<mapsto> cp ''kick'']\<rparr>"
proof -
  have m: "build_module_to_star [admin_star] Map.empty
             = [cp ''plugins.group_admin'' \<mapsto> (admin_star, cp ''group_admin'')]"
    by (simp add: admin_star_def plugin_name_of_def skip_plugins_def cp_def)
  have a: "activated admin_star" by (simp add: admin_star_def)
  have k: "strip_slash (cp ''kick'') = cp ''kick''" "cp ''kick'' \<noteq> []"
    "cp ''remove a member'' \<noteq> []"
    by (simp_all add: strip_slash_def cp_def)
  have i1: "index_handler [cp ''plugins.group_admin'' \<mapsto> (admin_star, cp ''group_admin'')]
              (Metadata mute_handler) (clear_index demo_plugin)
            = demo_plugin\<lparr>handler_cache := [cmd_mute \<mapsto> mute_info],
                          alias_to_command := [cp ''mute'' \<mapsto> cmd_mute]\<rparr>"
    by (simp add: index_handler_def mute_handler_def read_alias_def demo_names Let_def
                  clear_index_def mute_info_def demo_plugin_def)
  have i2: "index_handler [cp ''plugins.group_admin'' \<mapsto> (admin_star, cp ''group_admin'')]
              (Metadata kick_handler)
              (demo_plugin\<lparr>handler_cache := [cmd_mute \<mapsto> mute_info],
                          alias_to_command := [cp ''mute'' \<mapsto> cmd_mute]\<rparr>)
            = demo_plugin\<lparr>handler_cache := [cmd_mute \<mapsto> mute_info, cp ''kick'' \<mapsto> kick_info],
                          alias_to_command := [cp ''mute'' \<mapsto> cp ''kick'']\<rparr>"
    by (simp add: index_handler_def kick_handler_def read_alias_def demo_names Let_def k
                  kick_info_def demo_plugin_def)
  have f: "filter activated [admin_star] = [admin_star]" using a by simp
  have g: "get_all_stars colliding_host = Some [admin_star]"
    "star_handlers_registry colliding_host = [Metadata mute_handler, Metadata kick_handler]"
    by (simp_all add: colliding_host_def demo_host_def)
  show ?thesis
    unfolding build_handler_cache_def g Let_def
    by (simp only: option.case f m scan_registry.simps i1 i2 list.distinct if_False)
qed

text \<open>
  Claim C6, as amended. In the snapshot a rebuild produces, every alias of the alias
  index maps to a canonical name that has a record in the same snapshot, stored under
  that name; resolving a name whose prefix-stripped form the alias index maps to \<open>c\<close>
  returns the record of \<open>c\<close>; and an alias declared by an indexed handler of command
  \<open>c\<close> is registered for \<open>c\<close> and resolves to the record of \<open>c\<close> whenever no later entry of
  the registry declares the same alias (the last declaration of an alias wins).
\<close>

theorem alias_index_consistent:
  "(alias_to_command (build_handler_cache H self) a = Some c \<longrightarrow>
      (\<exists>r. handler_cache (build_handler_cache H self) c = Some r \<and> info_command r = c)) \<and>
   (alias_to_command (build_handler_cache H self) (strip_slash alias) = Some c' \<longrightarrow>
      (\<exists>r. handler_cache (build_handler_cache H self) c' = Some r \<and> info_command r = c' \<and>
           resolve (build_handler_cache H self) alias = Some r)) \<and>
   (star_handlers_registry H = pre @ Metadata h # post \<and>
    handler_module_path h \<in> eligible_modules H \<and>
    scan_filters (event_filters h) (None, [], False) = (Some n, als, adm) \<and> n \<noteq> [] \<and>
    declared \<in> set als \<and>
    list_all (\<lambda>e. \<not> declares_alias (eligible_modules H) e (strip_slash declared)) post \<longrightarrow>
      alias_to_command (build_handler_cache H self) (strip_slash declared) = Some (strip_slash n) \<and>
      (\<exists>r. resolve (build_handler_cache H self) declared = Some r \<and>
           handler_cache (build_handler_cache H self) (strip_slash n) = Some r \<and>
           info_command r = strip_slash n))"
proof -
  let ?S = "build_handler_cache H self"
  have inv: "\<And>x y. alias_to_command ?S x = Some y \<Longrightarrow>
               \<exists>r. handler_cache ?S y = Some r \<and> info_command r = y"
  proof -
    fix x y assume "alias_to_command ?S x = Some y"
    then have "y \<in> dom (handler_cache ?S)"
      using build_aliases_closed[of H self] by (auto simp: aliases_closed_def)
    then obtain r where "handler_cache ?S y = Some r" by auto
    then show "\<exists>r. handler_cache ?S y = Some r \<and> info_command r = y"
      using build_records_command by blast
  qed
  have res: "\<And>x y. alias_to_command ?S (strip_slash x) = Some y \<Longrightarrow>
               \<exists>r. handler_cache ?S y = Some r \<and> info_command r = y \<and> resolve ?S x = Some r"
  proof -
    fix x y assume a: "alias_to_command ?S (strip_slash x) = Some y"
    from inv[OF a] obtain r where "handler_cache ?S y = Some r" "info_command r = y" by blast
    then show "\<exists>r. handler_cache ?S y = Some r \<and> info_command r = y \<and> resolve ?S x = Some r"
      using a by (simp add: resolve_def resolve_alias_def)
  qed
  show ?thesis
  proof (intro conjI impI)
    assume "alias_to_command ?S a = Some c"
    then show "\<exists>r. handler_cache ?S c = Some r \<and> info_command r = c" by (rule inv)
  next
    assume "alias_to_command ?S (strip_slash alias) = Some c'"
    then show "\<exists>r. handler_cache ?S c' = Some r \<and> info_command r = c' \<and> resolve ?S alias = Some r"
      by (rule res)
  next
    assume h: "star_handlers_registry H = pre @ Metadata h # post \<and>
      handler_module_path h \<in> eligible_modules H \<and>
      scan_filters (event_filters h) (None, [], False) = (Some n, als, adm) \<and> n \<noteq> [] \<and>
      declared \<in> set als \<and>
      list_all (\<lambda>e. \<not> declares_alias (eligible_modules H) e (strip_slash declared)) post"
    then show k: "alias_to_command ?S (strip_slash declared) = Some (strip_slash n)"
      using build_last_declarer[of H pre h post n als adm declared self] by blast
    from res[OF k] show "\<exists>r. resolve ?S declared = Some r \<and>
           handler_cache ?S (strip_slash n) = Some r \<and> info_command r = strip_slash n"
      by blast
  qed
qed

text \<open>
  On the concrete host the alias \<open>/mute\<close> of the mute command is declared once, and
  resolves to the record of the mute command.
\<close>

theorem alias_index_consistent_witness:
  "alias_to_command demo_indexed (cp ''mute'') = Some cmd_mute \<and>
   strip_slash (cp ''/mute'') = cp ''mute'' \<and>
   handler_cache demo_indexed cmd_mute = Some mute_info \<and>
   info_command mute_info = cmd_mute \<and>
   resolve demo_indexed (cp ''/mute'') = Some mute_info \<and>
   star_handlers_registry demo_host = [] @ Metadata mute_handler # [Metadata checkin_handler] \<and>
   handler_module_path mute_handler \<in> eligible_modules demo_host \<and>
   scan_filters (event_filters mute_handler) (None, [], False) = (Some cmd_mute, [cp ''/mute''], True) \<and>
   list_all (\<lambda>e. \<not> declares_alias (eligible_modules demo_host) e (strip_slash (cp ''/mute'')))
     [Metadata checkin_handler]"
proof -
  have a': "alias_to_command (build_handler_cache demo_host demo_plugin) (cp ''mute'') = Some cmd_mute"
    using demo_lookups(3) by (simp add: demo_indexed_def)
  have reg: "star_handlers_registry demo_host = [] @ Metadata mute_handler # [Metadata checkin_handler]"
    by (simp add: demo_host_def)
  have el: "handler_module_path mute_handler \<in> eligible_modules demo_host"
    by (simp add: eligible_modules_def demo_host_def admin_star_def mute_handler_def
                  plugin_name_of_def skip_plugins_def cp_def)
  have sf: "scan_filters (event_filters mute_handler) (None, [], False)
              = (Some cmd_mute, [cp ''/mute''], True)"
    by (simp add: mute_handler_def read_alias_def)
  have later: "list_all (\<lambda>e. \<not> declares_alias (eligible_modules demo_host) e (strip_slash (cp ''/mute'')))
     [Metadata checkin_handler]"
    by (simp add: declares_alias_def checkin_handler_def read_alias_def)
  have hyp: "star_handlers_registry demo_host = [] @ Metadata mute_handler # [Metadata checkin_handler] \<and>
    handler_module_path mute_handler \<in> eligible_modules demo_host \<and>
    scan_filters (event_filters mute_handler) (None, [], False) = (Some cmd_mute, [cp ''/mute''], True) \<and>
    cmd_mute \<noteq> [] \<and> cp ''/mute'' \<in> set [cp ''/mute''] \<and>
    list_all (\<lambda>e. \<not> declares_alias (eligible_modules demo_host) e (strip_slash (cp ''/mute'')))
      [Metadata checkin_handler]"
    using reg el sf later demo_names(7) by simp
  note t = alias_index_consistent[of demo_host demo_plugin "cp ''mute''" cmd_mute "cp ''/mute''"
             cmd_mute "[]" mute_handler "[Metadata checkin_handler]" cmd_mute "[cp ''/mute'']" True
             "cp ''/mute''"]
  from t hyp have "\<exists>r. resolve (build_handler_cache demo_host demo_plugin) (cp ''/mute'') = Some r \<and>
           handler_cache (build_handler_cache demo_host demo_plugin) (strip_slash cmd_mute) = Some r \<and>
           info_command r = strip_slash cmd_mute"
    by blast
  then have r: "resolve demo_indexed (cp ''/mute'') = Some mute_info"
    using demo_lookups(1) by (auto simp: demo_indexed_def demo_names)
  show ?thesis
    using a' reg el sf later r demo_lookups(1)
    by (simp add: demo_indexed_def demo_names mute_info_def)
qed

text \<open>
  As the claim words it, the alias of every command resolves to that command's record.
  When a later handler declares the same alias for the command \<open>kick\<close>, the alias of
  the mute command is in the snapshot and resolves to the record of \<open>kick\<close>.
\<close>

theorem alias_index_consistent_counterexample:
  "Metadata mute_handler \<in> set (star_handlers_registry colliding_host) \<and>
   handler_module_path mute_handler \<in> eligible_modules colliding_host \<and>
   scan_filters (event_filters mute_handler) (None, [], False) = (Some cmd_mute, [cp ''/mute''], True) \<and>
   handler_cache (build_handler_cache colliding_host demo_plugin) cmd_mute = Some mute_info \<and>
   strip_slash (cp ''/mute'') \<in> dom (alias_to_command (build_handler_cache colliding_host demo_plugin)) \<and>
   resolve (build_handler_cache colliding_host demo_plugin) (cp ''/mute'') = Some kick_info \<and>
   kick_info \<noteq> mute_info"
proof -
  have reg: "Metadata mute_handler \<in> set (star_handlers_registry colliding_host)"
    by (simp add: colliding_host_def)
  have el: "handler_module_path mute_handler \<in> eligible_modules colliding_host"
    by (simp add: eligible_modules_def colliding_host_def demo_host_def admin_star_def
                  mute_handler_def plugin_name_of_def skip_plugins_def cp_def)
  have sf: "scan_filters (event_filters mute_handler) (None, [], False)
              = (Some cmd_mute, [cp ''/mute''], True)"
    by (simp add: mute_handler_def read_alias_def)
  have k: "cp ''kick'' \<noteq> cmd_mute" "cmd_mute \<noteq> cp ''kick''"
    by (simp_all add: cmd_mute_def cp_def)
  have c: "handler_cache (build_handler_cache colliding_host demo_plugin) cmd_mute = Some mute_info"
    by (simp add: colliding_index k)
  have d: "strip_slash (cp ''/mute'') \<in> dom (alias_to_command (build_handler_cache colliding_host demo_plugin))"
    by (simp add: colliding_index demo_names)
  have r: "resolve (build_handler_cache colliding_host demo_plugin) (cp ''/mute'') = Some kick_info"
    by (simp add: resolve_def resolve_alias_def colliding_index demo_names)
  have n: "kick_info \<noteq> mute_info"
    by (simp add: kick_info_def mute_info_def)
  show ?thesis using reg el sf c d r n by (intro conjI)
qed

text \<open>
  Claim C9. A second rebuild against the same extensions and registry gives the same
  snapshot: per canonical name the same name, description, alias set and admin flag,
  and the same alias index. The result of a rebuild does not depend on what the index
  held before.
\<close>

theorem rebuild_idempotent:
  "snapshot (build_handler_cache H (build_handler_cache H self)) = snapshot (build_handler_cache H self) \<and>
   alias_to_command (build_handler_cache H (build_handler_cache H self))
     = alias_to_command (build_handler_cache H self) \<and>
   build_handler_cache H (self\<lparr>handler_cache := hc, alias_to_command := ac\<rparr>)
     = build_handler_cache H self"
  by (simp add: build_idem build_ignores_index)

section \<open>Claims on the policy gate\<close>

text \<open>
  Claim C2. For an admin-only command that resolves and passes the enable, whitelist
  and blacklist checks: a caller whose identity is in \<open>admin_users\<close> is allowed, also when
  \<open>allow_admin_commands\<close> is false; a caller who is not in \<open>admin_users\<close> is allowed when
  \<open>allow_admin_commands\<close> is true and denied, for want of admin rights, when it is false.
\<close>

theorem admin_gate:
  assumes "enabled self"
    and "handler_cache self (resolve_alias self (strip_slash command)) = Some info"
    and "info_is_admin info"
    and "whitelist self = [] \<or> resolve_alias self (strip_slash command) \<in> set (whitelist self)
           \<or> strip_slash command \<in> set (whitelist self)"
    and "resolve_alias self (strip_slash command) \<notin> set (blacklist self)"
    and "strip_slash command \<notin> set (blacklist self)"
  shows "can_execute H self command event =
     (if sender_id_of H event \<in> set (admin_users self) then (True, AllowedAdminUser)
      else if allow_admin_commands self then (True, Allowed)
      else (False, NeedsAdmin (strip_slash command)))"
  using assms by (auto simp: can_execute_def Let_def)

lemma demo_mute_resolves:
  "resolve_alias demo_indexed (cp ''mute'') = cmd_mute"
  "resolve_alias demo_indexed cmd_mute = cmd_mute"
  "resolve_alias (demo_indexed\<lparr>allow_admin_commands := x\<rparr>) (cp ''mute'') = cmd_mute"
  "resolve_alias (demo_indexed\<lparr>whitelist := wl\<rparr>) (cp ''mute'') = cmd_mute"
  "resolve_alias (demo_indexed\<lparr>blacklist := bl\<rparr>) (cp ''mute'') = cmd_mute"
  by (simp_all add: resolve_alias_def demo_lookups)

lemma demo_senders:
  "sender_id_of demo_host e = cp ''10001''" "cp ''555'' \<noteq> cp ''10001''"
  by (simp_all add: demo_host_def cp_def)

text \<open>
  The alias \<open>/mute\<close> of the admin-only mute command: the caller 10001 is an admin user;
  the caller 555 is not.
\<close>

theorem admin_gate_witness:
  "can_execute demo_host demo_indexed (cp ''/mute'') 0 = (True, AllowedAdminUser) \<and>
   \<not> allow_admin_commands demo_indexed \<and>
   can_execute (demo_host\<lparr>sender_id_of := (\<lambda>e. cp ''555'')\<rparr>) demo_indexed (cp ''/mute'') 0
     = (False, NeedsAdmin (cp ''mute'')) \<and>
   can_execute (demo_host\<lparr>sender_id_of := (\<lambda>e. cp ''555'')\<rparr>)
     (demo_indexed\<lparr>allow_admin_commands := True\<rparr>) (cp ''/mute'') 0 = (True, Allowed)"
proof -
  let ?on = "demo_indexed\<lparr>allow_admin_commands := True\<rparr>"
  let ?H = "demo_host\<lparr>sender_id_of := (\<lambda>e. cp ''555'')\<rparr>"
  have adm: "info_is_admin mute_info" by (simp add: mute_info_def)
  have e: "enabled demo_indexed" "enabled ?on" by (simp_all add: demo_config)
  have c: "handler_cache demo_indexed (resolve_alias demo_indexed (strip_slash (cp ''/mute'')))
             = Some mute_info"
    "handler_cache ?on (resolve_alias ?on (strip_slash (cp ''/mute''))) = Some mute_info"
    by (simp_all add: demo_names demo_mute_resolves demo_lookups)
  have w: "whitelist demo_indexed = [] \<or>
           resolve_alias demo_indexed (strip_slash (cp ''/mute'')) \<in> set (whitelist demo_indexed) \<or>
           strip_slash (cp ''/mute'') \<in> set (whitelist demo_indexed)"
    "whitelist ?on = [] \<or> resolve_alias ?on (strip_slash (cp ''/mute'')) \<in> set (whitelist ?on) \<or>
           strip_slash (cp ''/mute'') \<in> set (whitelist ?on)"
    by (simp_all add: demo_config)
  have b: "resolve_alias demo_indexed (strip_slash (cp ''/mute'')) \<notin> set (blacklist demo_indexed)"
    "strip_slash (cp ''/mute'') \<notin> set (blacklist demo_indexed)"
    "resolve_alias ?on (strip_slash (cp ''/mute'')) \<notin> set (blacklist ?on)"
    "strip_slash (cp ''/mute'') \<notin> set (blacklist ?on)"
    by (simp_all add: demo_config)
  have t1: "can_execute demo_host demo_indexed (cp ''/mute'') 0 = (True, AllowedAdminUser)"
    using admin_gate[OF e(1) c(1) adm w(1) b(1) b(2), of demo_host 0]
    by (simp add: demo_senders demo_config)
  have t2: "can_execute ?H demo_indexed (cp ''/mute'') 0 = (False, NeedsAdmin (cp ''mute''))"
    using admin_gate[OF e(1) c(1) adm w(1) b(1) b(2), of ?H 0]
    by (simp add: demo_senders demo_config demo_names)
  have t3: "can_execute ?H ?on (cp ''/mute'') 0 = (True, Allowed)"
    using admin_gate[OF e(2) c(2) adm w(2) b(3) b(4), of ?H 0]
    by (simp add: demo_senders demo_config)
  show ?thesis using t1 t2 t3 demo_config(4) by simp
qed

text \<open>
  Claim C8. The stripped form of the command and its canonical form are both tested.
  Either form in the whitelist passes the whitelist check (the denial is never the
  whitelist's); under a non-empty whitelist the absence of both denies; either form
  in the blacklist denies. When the plugin is enabled and the command resolves, these
  denials carry the whitelist reason and, the whitelist check passed, the blacklist
  reason.
\<close>

theorem lists_either_form:
  "(strip_slash command \<in> set (whitelist self) \<or>
    resolve_alias self (strip_slash command) \<in> set (whitelist self)
    \<longrightarrow> snd (can_execute H self command event) \<noteq> NotInWhitelist (strip_slash command)) \<and>
   (whitelist self \<noteq> [] \<and> strip_slash command \<notin> set (whitelist self) \<and>
    resolve_alias self (strip_slash command) \<notin> set (whitelist self)
    \<longrightarrow> \<not> fst (can_execute H self command event)) \<and>
   (strip_slash command \<in> set (blacklist self) \<or>
    resolve_alias self (strip_slash command) \<in> set (blacklist self)
    \<longrightarrow> \<not> fst (can_execute H self command event)) \<and>
   (enabled self \<and> handler_cache self (resolve_alias self (strip_slash command)) = Some info \<longrightarrow>
      (whitelist self \<noteq> [] \<and> strip_slash command \<notin> set (whitelist self) \<and>
       resolve_alias self (strip_slash command) \<notin> set (whitelist self)
       \<longrightarrow> can_execute H self command event = (False, NotInWhitelist (strip_slash command))) \<and>
      ((whitelist self = [] \<or> strip_slash command \<in> set (whitelist self) \<or>
        resolve_alias self (strip_slash command) \<in> set (whitelist self)) \<and>
       (strip_slash command \<in> set (blacklist self) \<or>
        resolve_alias self (strip_slash command) \<in> set (blacklist self))
       \<longrightarrow> can_execute H self command event = (False, InBlacklist (strip_slash command))))"
  by (auto simp: can_execute_def Let_def split: option.splits)

text \<open>
  The name \<open>mute\<close> is an alias: its stripped form and its canonical form differ, and
  each of them alone in a list decides.
\<close>

theorem lists_either_form_witness:
  "strip_slash (cp ''mute'') \<noteq> resolve_alias demo_indexed (strip_slash (cp ''mute'')) \<and>
   snd (can_execute demo_host (demo_indexed\<lparr>whitelist := [cp ''mute'']\<rparr>) (cp ''mute'') 0)
     \<noteq> NotInWhitelist (cp ''mute'') \<and>
   snd (can_execute demo_host (demo_indexed\<lparr>whitelist := [cmd_mute]\<rparr>) (cp ''mute'') 0)
     \<noteq> NotInWhitelist (cp ''mute'') \<and>
   can_execute demo_host (demo_indexed\<lparr>whitelist := [cmd_checkin]\<rparr>) (cp ''mute'') 0
     = (False, NotInWhitelist (cp ''mute'')) \<and>
   can_execute demo_host (demo_indexed\<lparr>blacklist := [cp ''mute'']\<rparr>) (cp ''mute'') 0
     = (False, InBlacklist (cp ''mute'')) \<and>
   can_execute demo_host (demo_indexed\<lparr>blacklist := [cmd_mute]\<rparr>) (cp ''mute'') 0
     = (False, InBlacklist (cp ''mute''))"
proof -
  have d: "strip_slash (cp ''mute'') \<noteq> resolve_alias demo_indexed (strip_slash (cp ''mute''))"
    by (simp add: demo_mute_resolves demo_names)
  have e: "\<And>wl. enabled (demo_indexed\<lparr>whitelist := wl\<rparr>)"
    "\<And>bl. enabled (demo_indexed\<lparr>blacklist := bl\<rparr>)"
    by (simp_all add: demo_config)
  have c: "\<And>wl. handler_cache (demo_indexed\<lparr>whitelist := wl\<rparr>)
               (resolve_alias (demo_indexed\<lparr>whitelist := wl\<rparr>) (strip_slash (cp ''mute'')))
             = Some mute_info"
    "\<And>bl. handler_cache (demo_indexed\<lparr>blacklist := bl\<rparr>)
               (resolve_alias (demo_indexed\<lparr>blacklist := bl\<rparr>) (strip_slash (cp ''mute'')))
             = Some mute_info"
    by (simp_all add: demo_names demo_mute_resolves demo_lookups)
  have w1: "snd (can_execute demo_host (demo_indexed\<lparr>whitelist := [cp ''mute'']\<rparr>) (cp ''mute'') 0)
     \<noteq> NotInWhitelist (cp ''mute'')"
    using lists_either_form[where self="demo_indexed\<lparr>whitelist := [cp ''mute'']\<rparr>"
            and command="cp ''mute''" and H=demo_host and event=0 and info=mute_info] e(1) c(1)
    by (simp add: demo_mute_resolves demo_names)
  have w2: "snd (can_execute demo_host (demo_indexed\<lparr>whitelist := [cmd_mute]\<rparr>) (cp ''mute'') 0)
     \<noteq> NotInWhitelist (cp ''mute'')"
    using lists_either_form[where self="demo_indexed\<lparr>whitelist := [cmd_mute]\<rparr>"
            and command="cp ''mute''" and H=demo_host and event=0 and info=mute_info] e(1) c(1)
    by (simp add: demo_mute_resolves demo_names)
  have w3: "can_execute demo_host (demo_indexed\<lparr>whitelist := [cmd_checkin]\<rparr>) (cp ''mute'') 0
     = (False, NotInWhitelist (cp ''mute''))"
    using lists_either_form[where self="demo_indexed\<lparr>whitelist := [cmd_checkin]\<rparr>"
            and command="cp ''mute''" and H=demo_host and event=0 and info=mute_info] e(1) c(1)
    by (simp add: demo_mute_resolves demo_names)
  have b1: "can_execute demo_host (demo_indexed\<lparr>blacklist := [cp ''mute'']\<rparr>) (cp ''mute'') 0
     = (False, InBlacklist (cp ''mute''))"
    using lists_either_form[where self="demo_indexed\<lparr>blacklist := [cp ''mute'']\<rparr>"
            and command="cp ''mute''" and H=demo_host and event=0 and info=mute_info] e(2) c(2)
    by (simp add: demo_mute_resolves demo_names demo_config)
  have b2: "can_execute demo_host (demo_indexed\<lparr>blacklist := [cmd_mute]\<rparr>) (cp ''mute'') 0
     = (False, InBlacklist (cp ''mute''))"
    using lists_either_form[where self="demo_indexed\<lparr>blacklist := [cmd_mute]\<rparr>"
            and command="cp ''mute''" and H=demo_host and event=0 and info=mute_info] e(2) c(2)
    by (simp add: demo_mute_resolves demo_names demo_config)
  show ?thesis using d w1 w2 w3 b1 b2 by simp
qed

section \<open>Claims on the identity substitution wrapper\<close>

lemma class_namespace_special:
  "list_all (\<lambda>n. n = ''get_sender_id'' \<or> take 2 n = ''__'') class_namespace"
  by (simp add: class_namespace_def)

lemma object_namespace_special: "list_all (\<lambda>n. take 2 n = ''__'') object_namespace"
  by (simp add: object_namespace_def)

lemma found_in_type_special:
  assumes "found_in_type L attr"
  shows "attr = ''get_sender_id'' \<or> take 2 attr = ''__''"
proof -
  from assms consider "attr \<in> set class_namespace" | "attr \<in> set object_namespace"
    | "attr \<in> dunder ` set (special_names L)"
    unfolding found_in_type_def set_append set_map Un_iff by blast
  then show ?thesis
  proof cases
    case 1
    then show ?thesis using class_namespace_special unfolding list_all_iff by blast
  next
    case 2
    then show ?thesis using object_namespace_special unfolding list_all_iff by blast
  next
    case 3
    then obtain stem where "attr = dunder stem" by blast
    then show ?thesis by (simp add: dunder_def)
  qed
qed

text \<open>
  Claim C7, as amended. \<open>get_sender_id\<close> of a wrapper returns the substituted identity,
  whatever event is wrapped. Take a name other than the wrapper's two internal fields.
  Reading it gives what reading it on the wrapped event gives (its value, or the same
  \<open>AttributeError\<close>) when the name is not \<open>get_sender_id\<close> and does not begin with two
  underscores; in general, exactly when the lookup through the wrapper's type does
  not find it, that is, when it is none of the names its class binds (\<open>get_sender_id\<close>,
  \<open>__init__\<close>, \<open>__getattr__\<close>, \<open>__setattr__\<close>, \<open>__doc__\<close>, \<open>__module__\<close>, \<open>__dict__\<close>,
  \<open>__weakref__\<close>) and none of the special names every object has (\<open>__class__\<close> and the
  like); a name that the lookup finds reads what the wrapper has of its own. Writing
  the name is a write on the wrapped event: it changes the original event in the
  store, where a direct read then finds the new value, and leaves the wrapper as it
  was.
\<close>

theorem wrapper_delegation:
  assumes "attr \<noteq> ''_original_event''" and "attr \<noteq> ''_bot_user_id''"
  shows "wrapper_get_sender_id (wrapper_init original bot_id) = bot_id \<and>
         (attr \<noteq> ''get_sender_id'' \<and> take 2 attr \<noteq> ''__'' \<longrightarrow>
            wrapper_read L hp w attr = py_getattr hp (w_original_event w) attr) \<and>
         (\<not> found_in_type L attr \<longrightarrow>
            wrapper_read L hp w attr = py_getattr hp (w_original_event w) attr) \<and>
         (found_in_type L attr \<longrightarrow> wrapper_read L hp w attr = Inr (VOwn attr)) \<and>
         (w_original_event w = VRef a \<and> hp a = Some tbl \<longrightarrow>
            wrapper_setattr hp w attr v = Inr (hp(a \<mapsto> tbl(attr \<mapsto> v)), w) \<and>
            py_getattr (hp(a \<mapsto> tbl(attr \<mapsto> v))) (VRef a) attr = Inr v) \<and>
         wrapper_setattr hp w attr v =
           (case py_setattr hp (w_original_event w) attr v of
              Inl e \<Rightarrow> Inl e
            | Inr hp' \<Rightarrow> Inr (hp', w))"
proof -
  have s: "attr \<noteq> ''get_sender_id'' \<and> take 2 attr \<noteq> ''__'' \<longrightarrow> \<not> found_in_type L attr"
    using found_in_type_special[of L attr] by blast
  have r: "wrapper_read L hp w attr =
             (if found_in_type L attr then Inr (VOwn attr)
              else py_getattr hp (w_original_event w) attr)"
    using assms by (simp add: wrapper_read_def wrapper_getattr_def)
  have g: "wrapper_get_sender_id (wrapper_init original bot_id) = bot_id"
    by (simp add: wrapper_get_sender_id_def wrapper_init_def)
  have wr: "wrapper_setattr hp w attr v =
           (case py_setattr hp (w_original_event w) attr v of
              Inl e \<Rightarrow> Inl e
            | Inr hp' \<Rightarrow> Inr (hp', w))"
    using assms by (simp add: wrapper_setattr_def)
  have st: "w_original_event w = VRef a \<and> hp a = Some tbl \<longrightarrow>
            wrapper_setattr hp w attr v = Inr (hp(a \<mapsto> tbl(attr \<mapsto> v)), w) \<and>
            py_getattr (hp(a \<mapsto> tbl(attr \<mapsto> v))) (VRef a) attr = Inr v"
    unfolding wr by (simp add: py_setattr_def py_getattr_def)
  show ?thesis using s r g wr st by simp
qed

text \<open>
  A wrapper around the event at address 0: reading and writing \<open>message_str\<close> reach the
  event itself, and reading \<open>__class__\<close> does not.
\<close>

theorem wrapper_delegation_witness:
  "wrapper_get_sender_id (wrapper_init (VRef 0) (VStr (cp ''bot_self''))) = VStr (cp ''bot_self'') \<and>
   \<not> found_in_type demo_lib ''message_str'' \<and>
   wrapper_read demo_lib (store demo_world) (wrapper_init (VRef 0) (VStr (cp ''bot_self'')))
       ''message_str''
     = Inr (VStr (cp ''mute him'')) \<and>
   wrapper_setattr (store demo_world) (wrapper_init (VRef 0) (VStr (cp ''bot_self'')))
       ''message_str'' (VStr (cp ''/x''))
     = Inr ((store demo_world)(0 \<mapsto> demo_event(''message_str'' \<mapsto> VStr (cp ''/x''))),
            wrapper_init (VRef 0) (VStr (cp ''bot_self''))) \<and>
   py_getattr ((store demo_world)(0 \<mapsto> demo_event(''message_str'' \<mapsto> VStr (cp ''/x''))))
       (VRef 0) ''message_str'' = Inr (VStr (cp ''/x'')) \<and>
   found_in_type demo_lib ''__class__'' \<and>
   wrapper_read demo_lib (store demo_world) (wrapper_init (VRef 0) (VStr (cp ''bot_self'')))
       ''__class__''
     = Inr (VOwn ''__class__'')"
proof -
  have n: "''message_str'' \<noteq> ''_original_event''" "''message_str'' \<noteq> ''_bot_user_id''"
    "''__class__'' \<noteq> ''_original_event''" "''__class__'' \<noteq> ''_bot_user_id''"
    by simp_all
  have f: "\<not> found_in_type demo_lib ''message_str''"
    using found_in_type_special[of demo_lib "''message_str''"] by auto
  have c: "found_in_type demo_lib ''__class__''"
    by (simp add: found_in_type_def object_namespace_def)
  have o: "w_original_event (wrapper_init (VRef 0) (VStr (cp ''bot_self''))) = VRef 0"
    by (simp add: wrapper_init_def)
  have h: "store demo_world 0 = Some demo_event" by (simp add: demo_world_def)
  have g: "py_getattr (store demo_world) (VRef 0) ''message_str'' = Inr (VStr (cp ''mute him''))"
    by (simp add: py_getattr_def h demo_event_def)
  note t = wrapper_delegation[OF n(1) n(2), of "VRef 0" "VStr (cp ''bot_self'')" demo_lib
             "store demo_world" "wrapper_init (VRef 0) (VStr (cp ''bot_self''))" 0 demo_event
             "VStr (cp ''/x'')"]
  note u = wrapper_delegation[OF n(3) n(4), of "VRef 0" "VStr (cp ''bot_self'')" demo_lib
             "store demo_world" "wrapper_init (VRef 0) (VStr (cp ''bot_self''))" 0 demo_event
             "VStr (cp ''/x'')"]
  from t u f c o h g show ?thesis by simp
qed

text \<open>
  As the claim words it, every read other than \<open>get_sender_id\<close> is the wrapped event's.
  Reading \<open>_bot_user_id\<close> gives the wrapper's own field; the event has no such attribute.
\<close>

theorem wrapper_delegation_counterexample:
  "wrapper_read demo_lib (store demo_world) (wrapper_init (VRef 0) (VStr (cp ''bot_self'')))
       ''_bot_user_id''
     = Inr (VStr (cp ''bot_self'')) \<and>
   py_getattr (store demo_world) (VRef 0) ''_bot_user_id'' = Inl (attribute_error ''_bot_user_id'') \<and>
   ''_bot_user_id'' \<noteq> ''get_sender_id''"
  by (simp add: wrapper_read_def wrapper_init_def py_getattr_def demo_world_def demo_event_def)

section \<open>The invocation\<close>

lemma strip_blank:
  assumes "list_all py_isspace s"
  shows "strip s = []"
proof -
  have d: "dropWhile py_isspace s = []"
    using assms by (simp add: dropWhile_eq_Nil_conv list_all_iff)
  show ?thesis unfolding strip_def d by simp
qed

lemma send_each_log: "send_each H rs log = log @ rs"
  by (induction rs arbitrary: log) (simp_all add: send_def)

lemma event_setattr_message_str:
  "hp e = Some tbl \<Longrightarrow>
   event_setattr hp (event_of e self as_bot) ''message_str'' v =
     Inr (hp(e \<mapsto> tbl(''message_str'' \<mapsto> v)), event_of e self as_bot)"
  by (simp add: event_of_def event_setattr_def wrapper_setattr_def wrapper_init_def py_setattr_def)

lemma message_obj_not_in_type: "\<not> found_in_type L ''message_obj''"
  using found_in_type_special[of L "''message_obj''"] by auto

lemma event_getattr_message_obj:
  "event_getattr L hp (event_of e self as_bot) ''message_obj'' = py_getattr hp (VRef e) ''message_obj''"
  by (simp add: event_of_def event_getattr_def wrapper_read_def wrapper_getattr_def wrapper_init_def
        message_obj_not_in_type)

lemma set_message_components_effect:
  assumes "hp e = Some etbl" "etbl ''message_obj'' = Some (VRef m)"
    "hp m = Some mtbl" "mtbl ''message'' = Some old"
    "build_message_components L actual args ats (Some url) = Inr comps"
  shows "set_message_components L hp (event_of e self as_bot) actual args ats url
           = hp(m \<mapsto> mtbl(''message'' \<mapsto> VComps comps))"
  using assms
  by (simp add: set_message_components_def event_getattr_message_obj py_getattr_def py_hasattr_def
        py_setattr_def)

lemma set_message_components_keeps:
  assumes "hp e = Some etbl"
  shows "\<exists>t. set_message_components L hp ev actual args ats url e = Some t \<and>
             t ''message_str'' = etbl ''message_str'' \<and> t ''message_obj'' = etbl ''message_obj''"
  using assms
  by (auto simp: set_message_components_def py_setattr_def
           split: sum.splits val.splits option.splits)

lemma py_setattr_existing:
  "hp e = Some t \<Longrightarrow> py_setattr hp (VRef e) attr v = Inr (hp(e \<mapsto> t(attr \<mapsto> v)))"
  by (simp add: py_setattr_def)

lemma try_body_unfold:
  assumes e: "store W e = Some etbl"
  shows "\<exists>hp2 t.
     hp2 = (if ats \<noteq> [] \<or> url \<noteq> []
            then set_message_components L
                   ((store W)(e \<mapsto> etbl(''message_str'' \<mapsto>
                      VStr (if args \<noteq> [] then cp ''/'' @ actual @ cp '' '' @ args
                            else cp ''/'' @ actual))))
                   (event_of e self as_bot) actual args ats url
            else (store W)(e \<mapsto> etbl(''message_str'' \<mapsto>
                      VStr (if args \<noteq> [] then cp ''/'' @ actual @ cp '' '' @ args
                            else cp ''/'' @ actual)))) \<and>
     hp2 e = Some t \<and> t ''message_obj'' = etbl ''message_obj'' \<and>
     try_body H L self W e info actual args ats url as_bot msg mo =
       (case run_handler (call_handler H (handler_callable (info_handler info)) hp2 (event_of e self as_bot))
               (call_handler H (handler_callable (info_handler info)) hp2 (event_of e self as_bot)) of
          Inl x \<Rightarrow> (Inl x, W\<lparr>store := hp2\<rparr>)
        | Inr results \<Rightarrow>
            (Inr (build_response actual args (collect_texts results) (collect_images results) as_bot),
             \<lparr>store = (if mo \<noteq> VNone
                        then hp2(e \<mapsto> t(''message_str'' \<mapsto> msg, ''message_obj'' \<mapsto> mo))
                        else hp2(e \<mapsto> t(''message_str'' \<mapsto> msg))),
              sent = fan_out H self e results (collect_texts results) (sent W)\<rparr>))"
proof -
  let ?msg = "VStr (if args \<noteq> [] then cp ''/'' @ actual @ cp '' '' @ args else cp ''/'' @ actual)"
  let ?hp1 = "(store W)(e \<mapsto> etbl(''message_str'' \<mapsto> ?msg))"
  define hp2 where "hp2 = (if ats \<noteq> [] \<or> url \<noteq> []
              then set_message_components L ?hp1 (event_of e self as_bot) actual args ats url
              else ?hp1)"
  have s1: "event_setattr (store W) (event_of e self as_bot) ''message_str'' ?msg
              = Inr (?hp1, event_of e self as_bot)"
    using e by (rule event_setattr_message_str)
  have h1: "?hp1 e = Some (etbl(''message_str'' \<mapsto> ?msg))" by simp
  from set_message_components_keeps[where hp="?hp1" and e=e
         and etbl="etbl(''message_str'' \<mapsto> ?msg)" and L=L and ev="event_of e self as_bot"
         and actual=actual and args=args and ats=ats and url=url] h1
  obtain t where t: "hp2 e = Some t" "t ''message_obj'' = etbl ''message_obj''"
    unfolding hp2_def by (cases "ats \<noteq> [] \<or> url \<noteq> []") auto
  have p1: "py_setattr hp2 (VRef e) ''message_str'' msg = Inr (hp2(e \<mapsto> t(''message_str'' \<mapsto> msg)))"
    using t(1) by (rule py_setattr_existing)
  have p2: "py_setattr (hp2(e \<mapsto> t(''message_str'' \<mapsto> msg))) (VRef e) ''message_obj'' mo
              = Inr (hp2(e \<mapsto> t(''message_str'' \<mapsto> msg, ''message_obj'' \<mapsto> mo)))"
    by (simp add: py_setattr_def)
  have "try_body H L self W e info actual args ats url as_bot msg mo =
       (case run_handler (call_handler H (handler_callable (info_handler info)) hp2 (event_of e self as_bot))
               (call_handler H (handler_callable (info_handler info)) hp2 (event_of e self as_bot)) of
          Inl x \<Rightarrow> (Inl x, W\<lparr>store := hp2\<rparr>)
        | Inr results \<Rightarrow>
            (Inr (build_response actual args (collect_texts results) (collect_images results) as_bot),
             \<lparr>store = (if mo \<noteq> VNone
                        then hp2(e \<mapsto> t(''message_str'' \<mapsto> msg, ''message_obj'' \<mapsto> mo))
                        else hp2(e \<mapsto> t(''message_str'' \<mapsto> msg))),
              sent = fan_out H self e results (collect_texts results) (sent W)\<rparr>))"
    unfolding try_body_def Let_def event_of_def[symmetric] s1 sum.case prod.case hp2_def[symmetric] p1
    by (cases "run_handler (call_handler H (handler_callable (info_handler info)) hp2 (event_of e self as_bot))
               (call_handler H (handler_callable (info_handler info)) hp2 (event_of e self as_bot))")
       (simp_all add: p2)
  then show ?thesis using t hp2_def by blast
qed

lemma execute_command_invoke:
  assumes c: "kw_str (kw_command kw) = Inr command0" "command0 \<noteq> []"
    and ar: "kw_str (kw_args kw) = Inr args"
    and ur: "kw_str (kw_reply_image_url kw) = Inr url"
    and s: "self1 = (if handler_cache self = Map.empty then build_handler_cache H self else self)"
    and ok: "can_execute H self1 command0 event = (True, reason)"
    and inf: "handler_cache self1 (resolve_alias self1 (strip_slash command0)) = Some info"
    and inst: "get_plugin_instance H (info_module_path info) = Some inst"
    and msg: "py_getattr (store W) (VRef event) ''message_str'' = Inr msg"
  shows "execute_command H L self W event kw =
     (case try_body H L self1 W event info (resolve_alias self1 (strip_slash command0))
             args (case kw_at_qq_list kw of None \<Rightarrow> [] | Some l \<Rightarrow> l)
             url (case kw_as_bot kw of None \<Rightarrow> False | Some b \<Rightarrow> b)
             msg (case py_getattr (store W) (VRef event) ''message_obj'' of Inl e \<Rightarrow> VNone | Inr v \<Rightarrow> v) of
        (Inr resp, W') \<Rightarrow> (Inr resp, self1, W')
      | (Inl e, W') \<Rightarrow>
          (Inr (Failure (Some (resolve_alias self1 (strip_slash command0))) (ExecutionFailed e)),
           self1, except_restore W' event msg))"
  unfolding execute_command_def Let_def c(1) ar ur sum.case s[symmetric]
  using c(2) by (simp only: if_False ok inf inst msg prod.case bool.case option.case sum.case
                    case_prod_conv split: bool.splits)

lemma execute_command_cases:
  "snd (snd (execute_command H L self W event kw)) = W \<or>
   (\<exists>command0 args url self1 reason info inst msg.
      kw_str (kw_command kw) = Inr command0 \<and> command0 \<noteq> [] \<and>
      kw_str (kw_args kw) = Inr args \<and> kw_str (kw_reply_image_url kw) = Inr url \<and>
      self1 = (if handler_cache self = Map.empty then build_handler_cache H self else self) \<and>
      can_execute H self1 command0 event = (True, reason) \<and>
      handler_cache self1 (resolve_alias self1 (strip_slash command0)) = Some info \<and>
      get_plugin_instance H (info_module_path info) = Some inst \<and>
      py_getattr (store W) (VRef event) ''message_str'' = Inr msg)"
proof (cases "kw_str (kw_command kw)")
  case (Inl x)
  then show ?thesis by (simp add: execute_command_def)
next
  case cc: (Inr c0)
  show ?thesis
  proof (cases "kw_str (kw_args kw)")
    case (Inl x)
    then show ?thesis using cc by (simp add: execute_command_def)
  next
    case aa: (Inr args)
    show ?thesis
    proof (cases "kw_str (kw_reply_image_url kw)")
      case (Inl x)
      then show ?thesis using cc aa by (simp add: execute_command_def Let_def)
    next
      case uu: (Inr url)
      let ?s = "if handler_cache self = Map.empty then build_handler_cache H self else self"
      show ?thesis
      proof (cases "c0 = []")
        case True
        then show ?thesis using cc aa uu by (simp add: execute_command_def)
      next
        case c: False
        obtain b reason where ce: "can_execute H ?s c0 event = (b, reason)"
          by (cases "can_execute H ?s c0 event") auto
        show ?thesis
        proof (cases b)
          case False
          then show ?thesis using cc aa uu c ce by (simp add: execute_command_def Let_def)
        next
          case b: True
          show ?thesis
          proof (cases "handler_cache ?s (resolve_alias ?s (strip_slash c0))")
            case None
            then show ?thesis using cc aa uu c ce b by (simp add: execute_command_def Let_def)
          next
            case (Some info)
            show ?thesis
            proof (cases "get_plugin_instance H (info_module_path info)")
              case None
              then show ?thesis using cc aa uu c ce b Some
                by (simp add: execute_command_def Let_def)
            next
              case inst: (Some inst)
              show ?thesis
              proof (cases "py_getattr (store W) (VRef event) ''message_str''")
                case (Inl x)
                then show ?thesis using cc aa uu c ce b Some inst
                  by (simp add: execute_command_def Let_def)
              next
                case (Inr msg)
                have "can_execute H ?s c0 event = (True, reason)" using ce b by simp
                then have "\<exists>command0 args url self1 reason info inst msg.
                  kw_str (kw_command kw) = Inr command0 \<and> command0 \<noteq> [] \<and>
                  kw_str (kw_args kw) = Inr args \<and> kw_str (kw_reply_image_url kw) = Inr url \<and>
                  self1 = (if handler_cache self = Map.empty then build_handler_cache H self
                           else self) \<and>
                  can_execute H self1 command0 event = (True, reason) \<and>
                  handler_cache self1 (resolve_alias self1 (strip_slash command0)) = Some info \<and>
                  get_plugin_instance H (info_module_path info) = Some inst \<and>
                  py_getattr (store W) (VRef event) ''message_str'' = Inr msg"
                  using cc aa uu c Some inst Inr
                  by (intro exI[of _ c0] exI[of _ args] exI[of _ url] exI[of _ ?s]
                        exI[of _ reason] exI[of _ info] exI[of _ inst] exI[of _ msg] conjI)
                     (rule refl | assumption)+
                then show ?thesis by (rule disjI2)
              qed
            qed
          qed
        qed
      qed
    qed
  qed
qed

lemma py_getattr_message_str_exists:
  "py_getattr hp (VRef e) attr = Inr v \<Longrightarrow> \<exists>tbl. hp e = Some tbl \<and> tbl attr = Some v"
  by (auto simp: py_getattr_def split: option.splits)

lemma try_then_except:
  fixes H L self W e info actual args ats url as_bot msg etbl
  assumes e: "store W e = Some etbl" and m: "etbl ''message_str'' = Some msg"
  defines "mo \<equiv> (case py_getattr (store W) (VRef e) ''message_obj'' of Inl x \<Rightarrow> VNone | Inr v \<Rightarrow> v)"
  defines "out \<equiv> (case try_body H L self W e info actual args ats url as_bot msg mo of
                     (Inr resp, W') \<Rightarrow> W'
                   | (Inl x, W') \<Rightarrow> except_restore W' e msg)"
  shows "py_getattr (store out) (VRef e) ''message_str'' = Inr msg \<and>
         py_getattr (store out) (VRef e) ''message_obj'' = py_getattr (store W) (VRef e) ''message_obj''"
proof -
  from try_body_unfold[OF e, where H=H and L=L and self=self and info=info and actual=actual and args=args and ats=ats and url=url and as_bot=as_bot and msg=msg and mo=mo]
  obtain hp2 t where t: "hp2 e = Some t" "t ''message_obj'' = etbl ''message_obj''"
    and tb: "try_body H L self W e info actual args ats url as_bot msg mo =
       (case run_handler (call_handler H (handler_callable (info_handler info)) hp2 (event_of e self as_bot))
               (call_handler H (handler_callable (info_handler info)) hp2 (event_of e self as_bot)) of
          Inl x \<Rightarrow> (Inl x, W\<lparr>store := hp2\<rparr>)
        | Inr results \<Rightarrow>
            (Inr (build_response actual args (collect_texts results) (collect_images results) as_bot),
             \<lparr>store = (if mo \<noteq> VNone
                        then hp2(e \<mapsto> t(''message_str'' \<mapsto> msg, ''message_obj'' \<mapsto> mo))
                        else hp2(e \<mapsto> t(''message_str'' \<mapsto> msg))),
              sent = fan_out H self e results (collect_texts results) (sent W)\<rparr>))"
    by blast
  have look: "\<And>hp tbl attr. py_getattr (hp(e \<mapsto> tbl)) (VRef e) attr
                  = (case tbl attr of None \<Rightarrow> Inl (attribute_error attr) | Some v \<Rightarrow> Inr v)"
    by (simp add: py_getattr_def split: option.splits)
  have orig: "py_getattr (store W) (VRef e) ''message_obj''
                = (case etbl ''message_obj'' of None \<Rightarrow> Inl (attribute_error ''message_obj'')
                   | Some v \<Rightarrow> Inr v)"
    using e by (simp add: py_getattr_def split: option.splits)
  have mo: "mo = (case etbl ''message_obj'' of None \<Rightarrow> VNone | Some v \<Rightarrow> v)"
    unfolding mo_def orig by (simp split: option.splits)
  have keep: "(case (t(''message_str'' \<mapsto> msg)) ''message_obj'' of
                 None \<Rightarrow> Inl (attribute_error ''message_obj'') | Some v \<Rightarrow> Inr v)
              = py_getattr (store W) (VRef e) ''message_obj''"
    unfolding orig using t(2) by simp
  have reset: "mo \<noteq> VNone \<Longrightarrow> Inr mo = py_getattr (store W) (VRef e) ''message_obj''"
    unfolding orig mo by (simp split: option.splits)
  show ?thesis
  proof (cases "run_handler (call_handler H (handler_callable (info_handler info)) hp2 (event_of e self as_bot))
               (call_handler H (handler_callable (info_handler info)) hp2 (event_of e self as_bot))")
    case (Inl x)
    then have "out = except_restore (W\<lparr>store := hp2\<rparr>) e msg"
      unfolding out_def tb by simp
    then have so: "store out = hp2(e \<mapsto> t(''message_str'' \<mapsto> msg))"
      using t(1) by (simp add: except_restore_def py_setattr_def)
    have a: "py_getattr (store out) (VRef e) ''message_str'' = Inr msg"
      unfolding so look by simp
    have b: "py_getattr (store out) (VRef e) ''message_obj''
               = py_getattr (store W) (VRef e) ''message_obj''"
      unfolding so look by (rule keep)
    show ?thesis using a b by (rule conjI)
  next
    case (Inr results)
    then have so: "store out = (if mo \<noteq> VNone
                        then hp2(e \<mapsto> t(''message_str'' \<mapsto> msg, ''message_obj'' \<mapsto> mo))
                        else hp2(e \<mapsto> t(''message_str'' \<mapsto> msg)))"
      unfolding out_def tb by simp
    show ?thesis
    proof (cases "mo = VNone")
      case True
      have so': "store out = hp2(e \<mapsto> t(''message_str'' \<mapsto> msg))"
        unfolding so by (simp only: True not_True_eq_False if_False simp_thms)
      have a: "py_getattr (store out) (VRef e) ''message_str'' = Inr msg"
        unfolding so' look by simp
      have b: "py_getattr (store out) (VRef e) ''message_obj''
               = py_getattr (store W) (VRef e) ''message_obj''"
        unfolding so' look by (rule keep)
      show ?thesis using a b by (rule conjI)
    next
      case False
      have so': "store out = hp2(e \<mapsto> t(''message_str'' \<mapsto> msg, ''message_obj'' \<mapsto> mo))"
        unfolding so by (simp only: False not_False_eq_True if_True simp_thms)
      have a: "py_getattr (store out) (VRef e) ''message_str'' = Inr msg"
        unfolding so' look by simp
      have "py_getattr (store out) (VRef e) ''message_obj'' = Inr mo"
        unfolding so' look by simp
      then have b: "py_getattr (store out) (VRef e) ''message_obj''
               = py_getattr (store W) (VRef e) ''message_obj''"
        using reset[OF False] by (rule trans)
      show ?thesis using a b by (rule conjI)
    qed
  qed
qed

lemma references_restored:
  "py_getattr (store (snd (snd (execute_command H L self W event kw)))) (VRef event) ''message_str''
     = py_getattr (store W) (VRef event) ''message_str'' \<and>
   py_getattr (store (snd (snd (execute_command H L self W event kw)))) (VRef event) ''message_obj''
     = py_getattr (store W) (VRef event) ''message_obj''"
proof -
  from execute_command_cases[of H L self W event kw]
  show ?thesis
  proof
    assume "snd (snd (execute_command H L self W event kw)) = W"
    then show ?thesis by simp
  next
    assume "\<exists>command0 args url self1 reason info inst msg.
      kw_str (kw_command kw) = Inr command0 \<and> command0 \<noteq> [] \<and>
      kw_str (kw_args kw) = Inr args \<and> kw_str (kw_reply_image_url kw) = Inr url \<and>
      self1 = (if handler_cache self = Map.empty then build_handler_cache H self else self) \<and>
      can_execute H self1 command0 event = (True, reason) \<and>
      handler_cache self1 (resolve_alias self1 (strip_slash command0)) = Some info \<and>
      get_plugin_instance H (info_module_path info) = Some inst \<and>
      py_getattr (store W) (VRef event) ''message_str'' = Inr msg"
    then obtain command0 args url self1 reason info inst msg where
      a: "kw_str (kw_command kw) = Inr command0" "command0 \<noteq> []"
         "kw_str (kw_args kw) = Inr args" "kw_str (kw_reply_image_url kw) = Inr url"
         "self1 = (if handler_cache self = Map.empty then build_handler_cache H self else self)"
         "can_execute H self1 command0 event = (True, reason)"
         "handler_cache self1 (resolve_alias self1 (strip_slash command0)) = Some info"
         "get_plugin_instance H (info_module_path info) = Some inst"
         "py_getattr (store W) (VRef event) ''message_str'' = Inr msg"
      by blast
    from py_getattr_message_str_exists[OF a(9)] obtain etbl where
      e: "store W event = Some etbl" "etbl ''message_str'' = Some msg" by blast
    let ?mo = "case py_getattr (store W) (VRef event) ''message_obj'' of Inl e \<Rightarrow> VNone | Inr v \<Rightarrow> v"
    let ?tb = "try_body H L self1 W event info (resolve_alias self1 (strip_slash command0))
             args (case kw_at_qq_list kw of None \<Rightarrow> [] | Some l \<Rightarrow> l)
             url (case kw_as_bot kw of None \<Rightarrow> False | Some b \<Rightarrow> b)
             msg ?mo"
    note inv = execute_command_invoke[OF a, of L]
    note r = try_then_except[OF e, of H L self1 info "resolve_alias self1 (strip_slash command0)"
        args "case kw_at_qq_list kw of None \<Rightarrow> [] | Some l \<Rightarrow> l"
        url "case kw_as_bot kw of None \<Rightarrow> False | Some b \<Rightarrow> b"]
    obtain r0 W0 where tb: "?tb = (r0, W0)" by (cases ?tb) auto
    have "snd (snd (execute_command H L self W event kw)) =
            (case ?tb of (Inr resp, W') \<Rightarrow> W' | (Inl x, W') \<Rightarrow> except_restore W' event msg)"
      unfolding inv tb by (cases r0) simp_all
    then show ?thesis using r a(9) by (simp only:)
  qed
qed

lemma message_body_overwritten:
  fixes H L self W e info actual args ats url as_bot msg etbl mo
  assumes e: "store W e = Some etbl"
    and mo: "etbl ''message_obj'' = Some (VRef m)"
    and ne: "m \<noteq> e"
    and m: "store W m = Some mtbl"
    and old: "mtbl ''message'' = Some old"
    and sp: "ats \<noteq> [] \<or> url \<noteq> []"
    and b: "build_message_components L actual args ats (Some url) = Inr comps"
  defines "out \<equiv> (case try_body H L self W e info actual args ats url as_bot msg mo of
                     (Inr resp, W') \<Rightarrow> W'
                   | (Inl x, W') \<Rightarrow> except_restore W' e msg)"
  shows "store out m = Some (mtbl(''message'' \<mapsto> VComps comps))"
proof -
  let ?msg = "VStr (if args \<noteq> [] then cp ''/'' @ actual @ cp '' '' @ args else cp ''/'' @ actual)"
  let ?hp1 = "(store W)(e \<mapsto> etbl(''message_str'' \<mapsto> ?msg))"
  from try_body_unfold[OF e, where H=H and L=L and self=self and info=info and actual=actual and args=args and ats=ats and url=url and as_bot=as_bot and msg=msg and mo=mo]
  obtain hp2 t where h: "hp2 = (if ats \<noteq> [] \<or> url \<noteq> []
            then set_message_components L ?hp1 (event_of e self as_bot) actual args ats url
            else ?hp1)"
    and t: "hp2 e = Some t"
    and tb: "try_body H L self W e info actual args ats url as_bot msg mo =
       (case run_handler (call_handler H (handler_callable (info_handler info)) hp2 (event_of e self as_bot))
               (call_handler H (handler_callable (info_handler info)) hp2 (event_of e self as_bot)) of
          Inl x \<Rightarrow> (Inl x, W\<lparr>store := hp2\<rparr>)
        | Inr results \<Rightarrow>
            (Inr (build_response actual args (collect_texts results) (collect_images results) as_bot),
             \<lparr>store = (if mo \<noteq> VNone
                        then hp2(e \<mapsto> t(''message_str'' \<mapsto> msg, ''message_obj'' \<mapsto> mo))
                        else hp2(e \<mapsto> t(''message_str'' \<mapsto> msg))),
              sent = fan_out H self e results (collect_texts results) (sent W)\<rparr>))"
    by blast
  have s2: "set_message_components L ?hp1 (event_of e self as_bot) actual args ats url
              = ?hp1(m \<mapsto> mtbl(''message'' \<mapsto> VComps comps))"
    by (rule set_message_components_effect[where etbl="etbl(''message_str'' \<mapsto> ?msg)" and old=old])
       (use mo ne m old b in simp_all)
  have hm: "hp2 m = Some (mtbl(''message'' \<mapsto> VComps comps))"
    unfolding h using sp s2 by simp
  show ?thesis
  proof (cases "run_handler (call_handler H (handler_callable (info_handler info)) hp2 (event_of e self as_bot))
               (call_handler H (handler_callable (info_handler info)) hp2 (event_of e self as_bot))")
    case (Inl x)
    then have "out = except_restore (W\<lparr>store := hp2\<rparr>) e msg"
      unfolding out_def tb by simp
    then have "store out = hp2(e \<mapsto> t(''message_str'' \<mapsto> msg))"
      using t by (simp add: except_restore_def py_setattr_def)
    then show ?thesis using hm ne by simp
  next
    case (Inr results)
    then have "store out = (if mo \<noteq> VNone
                        then hp2(e \<mapsto> t(''message_str'' \<mapsto> msg, ''message_obj'' \<mapsto> mo))
                        else hp2(e \<mapsto> t(''message_str'' \<mapsto> msg)))"
      unfolding out_def tb by simp
    then show ?thesis using hm ne by simp
  qed
qed

lemma execute_command_world:
  assumes a: "kw_str (kw_command kw) = Inr command0" "command0 \<noteq> []"
      "kw_str (kw_args kw) = Inr args" "kw_str (kw_reply_image_url kw) = Inr url"
      "self1 = (if handler_cache self = Map.empty then build_handler_cache H self else self)"
      "can_execute H self1 command0 event = (True, reason)"
      "handler_cache self1 (resolve_alias self1 (strip_slash command0)) = Some info"
      "get_plugin_instance H (info_module_path info) = Some inst"
      "py_getattr (store W) (VRef event) ''message_str'' = Inr msg"
  shows "snd (snd (execute_command H L self W event kw)) =
           (case try_body H L self1 W event info (resolve_alias self1 (strip_slash command0))
                   args (case kw_at_qq_list kw of None \<Rightarrow> [] | Some l \<Rightarrow> l) url
                   (case kw_as_bot kw of None \<Rightarrow> False | Some b \<Rightarrow> b) msg
                   (case py_getattr (store W) (VRef event) ''message_obj'' of
                      Inl e \<Rightarrow> VNone | Inr v \<Rightarrow> v) of
              (Inr resp, W') \<Rightarrow> W'
            | (Inl x, W') \<Rightarrow> except_restore W' event msg)"
    and "fst (execute_command H L self W event kw) =
           (case fst (try_body H L self1 W event info (resolve_alias self1 (strip_slash command0))
                   args (case kw_at_qq_list kw of None \<Rightarrow> [] | Some l \<Rightarrow> l) url
                   (case kw_as_bot kw of None \<Rightarrow> False | Some b \<Rightarrow> b) msg
                   (case py_getattr (store W) (VRef event) ''message_obj'' of
                      Inl e \<Rightarrow> VNone | Inr v \<Rightarrow> v)) of
              Inr resp \<Rightarrow> Inr resp
            | Inl x \<Rightarrow> Inr (Failure (Some (resolve_alias self1 (strip_slash command0)))
                              (ExecutionFailed x)))"
proof -
  let ?tb = "try_body H L self1 W event info (resolve_alias self1 (strip_slash command0))
                   args (case kw_at_qq_list kw of None \<Rightarrow> [] | Some l \<Rightarrow> l) url
                   (case kw_as_bot kw of None \<Rightarrow> False | Some b \<Rightarrow> b) msg
                   (case py_getattr (store W) (VRef event) ''message_obj'' of
                      Inl e \<Rightarrow> VNone | Inr v \<Rightarrow> v)"
  note inv = execute_command_invoke[OF a, of L]
  obtain r0 W0 where tb: "?tb = (r0, W0)" by (cases ?tb) auto
  show "snd (snd (execute_command H L self W event kw)) =
           (case ?tb of (Inr resp, W') \<Rightarrow> W' | (Inl x, W') \<Rightarrow> except_restore W' event msg)"
    unfolding inv tb by (cases r0) simp_all
  show "fst (execute_command H L self W event kw) =
           (case fst ?tb of Inr resp \<Rightarrow> Inr resp
            | Inl x \<Rightarrow> Inr (Failure (Some (resolve_alias self1 (strip_slash command0)))
                              (ExecutionFailed x)))"
    unfolding inv tb by (cases r0) simp_all
qed

lemma try_body_response:
  assumes e: "store W e = Some etbl"
    and h: "\<And>hp ev. call_handler H (handler_callable (info_handler info)) hp ev = b"
  shows "fst (try_body H L self W e info actual args ats url as_bot msg mo) =
           (case run_handler b b of
              Inl x \<Rightarrow> Inl x
            | Inr results \<Rightarrow>
                Inr (build_response actual args (collect_texts results) (collect_images results)
                       as_bot))"
proof -
  from try_body_unfold[OF e, where H=H and L=L and self=self and info=info and actual=actual
         and args=args and ats=ats and url=url and as_bot=as_bot and msg=msg and mo=mo]
  obtain hp2 t where
    tb: "try_body H L self W e info actual args ats url as_bot msg mo =
       (case run_handler (call_handler H (handler_callable (info_handler info)) hp2 (event_of e self as_bot))
               (call_handler H (handler_callable (info_handler info)) hp2 (event_of e self as_bot)) of
          Inl x \<Rightarrow> (Inl x, W\<lparr>store := hp2\<rparr>)
        | Inr results \<Rightarrow>
            (Inr (build_response actual args (collect_texts results) (collect_images results) as_bot),
             \<lparr>store = (if mo \<noteq> VNone
                        then hp2(e \<mapsto> t(''message_str'' \<mapsto> msg, ''message_obj'' \<mapsto> mo))
                        else hp2(e \<mapsto> t(''message_str'' \<mapsto> msg))),
              sent = fan_out H self e results (collect_texts results) (sent W)\<rparr>))"
    by blast
  show ?thesis unfolding tb h by (cases "run_handler b b") simp_all
qed

section \<open>The invocation on the concrete inputs\<close>

lemma demo_kwargs:
  "kw_str (kw_command mute_kwargs) = Inr cmd_mute"
  "kw_str (kw_args mute_kwargs) = Inr (cp ''60'')"
  "(case kw_at_qq_list mute_kwargs of None \<Rightarrow> [] | Some l \<Rightarrow> l) = [cp ''123'']"
  "kw_str (kw_reply_image_url mute_kwargs) = Inr []"
  "(case kw_as_bot mute_kwargs of None \<Rightarrow> False | Some b \<Rightarrow> b) = False"
  by (simp_all add: mute_kwargs_def kw_str_def strip_def cmd_mute_def py_isspace_def cp_def)

lemma demo_first_call:
  "(if handler_cache demo_plugin = Map.empty then build_handler_cache H demo_plugin else demo_plugin)
     = build_handler_cache H demo_plugin"
  by (simp add: demo_plugin_def)

lemma build_handler_cache_host:
  assumes "get_all_stars H' = get_all_stars H"
    and "star_handlers_registry H' = star_handlers_registry H"
  shows "build_handler_cache H' self = build_handler_cache H self"
  unfolding build_handler_cache_def assms by (rule refl)

lemma failing_index: "build_handler_cache failing_host demo_plugin = demo_indexed"
  unfolding demo_indexed_def
  by (rule build_handler_cache_host) (simp_all add: failing_host_def)

lemma demo_allowed:
  "can_execute demo_host demo_indexed cmd_mute 0 = (True, AllowedAdminUser)"
  "can_execute failing_host demo_indexed cmd_mute 0 = (True, AllowedAdminUser)"
  by (simp_all add: can_execute_def Let_def demo_names demo_mute_resolves demo_lookups demo_config
        mute_info_def demo_senders failing_host_def)

lemma demo_instance:
  "get_plugin_instance demo_host (info_module_path mute_info) = Some 1"
  "get_plugin_instance failing_host (info_module_path mute_info) = Some 1"
  by (simp_all add: get_plugin_instance_def demo_host_def failing_host_def admin_star_def mute_info_def)

lemma demo_store:
  "store demo_world 0 = Some demo_event" "store demo_world 1 = Some demo_message_obj"
  "demo_event ''message_str'' = Some (VStr (cp ''mute him''))"
  "demo_event ''message_obj'' = Some (VRef 1)"
  "demo_message_obj ''message'' = Some (VComps [Plain (cp ''mute him'')])"
  "py_getattr (store demo_world) (VRef 0) ''message_str'' = Inr (VStr (cp ''mute him''))"
  "py_getattr (store demo_world) (VRef 0) ''message_obj'' = Inr (VRef 1)"
  "py_getattr (store demo_world) (VRef 1) ''message'' = Inr (VComps [Plain (cp ''mute him'')])"
  by (simp_all add: demo_world_def demo_event_def demo_message_obj_def py_getattr_def)

lemma demo_synthesis:
  "build_message_components demo_lib cmd_mute (cp ''60'') [cp ''123''] (Some []) = Inr mute_components"
  by (simp add: build_message_components_def reply_part_def message_part_def has_placeholders_def
      cp_def str_of_nat.simps demo_lib_def mute_components_def)

lemma demo_handlers:
  "call_handler demo_host c hp ev = AsyncGen [] None"
  "call_handler failing_host c hp ev = CallRaises (Exn OtherErr (cp ''boom''))"
  "run_handler (AsyncGen [] None) (AsyncGen [] None) = Inr []"
  "run_handler (CallRaises (Exn OtherErr (cp ''boom''))) (CallRaises (Exn OtherErr (cp ''boom'')))
     = Inl (Exn OtherErr (cp ''boom''))"
  by (simp_all add: demo_host_def failing_host_def run_handler_def non_null_def)

section \<open>Claims on the invocation\<close>

text \<open>
  Claim C1. After an invocation the event's textual content and structured message
  body should equal what they were before it. On the code, with a handler that does
  not itself write to the event, the textual content and the reference held in
  \<open>message_obj\<close> are the same on every exit path (lemma \<open>references_restored\<close>), but
  the message body is not: the synthesized components are written into
  \<open>event.message_obj.message\<close> in place, and no path writes the original list back
  (lemma \<open>message_body_overwritten\<close>). The theorem runs a call with one
  mention, once with a handler that succeeds and once with a handler that raises: in
  both runs the event still refers to the same \<open>message_obj\<close>, whose message is the
  synthesized segment list afterwards and not the original one.
\<close>

theorem message_body_not_restored:
  "py_getattr (store demo_world) (VRef 0) ''message_obj'' = Inr (VRef 1) \<and>
   py_getattr (store demo_world) (VRef 1) ''message'' = Inr (VComps [Plain (cp ''mute him'')]) \<and>
   fst (execute_command demo_host demo_lib demo_plugin demo_world 0 mute_kwargs)
     = Inr (Success cmd_mute (Some (cp ''60'')) NoOutput None AsUser) \<and>
   py_getattr (store (snd (snd (execute_command demo_host demo_lib demo_plugin demo_world 0 mute_kwargs))))
       (VRef 0) ''message_obj'' = Inr (VRef 1) \<and>
   py_getattr (store (snd (snd (execute_command demo_host demo_lib demo_plugin demo_world 0 mute_kwargs))))
       (VRef 1) ''message'' = Inr (VComps mute_components) \<and>
   fst (execute_command failing_host demo_lib demo_plugin demo_world 0 mute_kwargs)
     = Inr (Failure (Some cmd_mute) (ExecutionFailed (Exn OtherErr (cp ''boom'')))) \<and>
   py_getattr (store (snd (snd (execute_command failing_host demo_lib demo_plugin demo_world 0 mute_kwargs))))
       (VRef 0) ''message_obj'' = Inr (VRef 1) \<and>
   py_getattr (store (snd (snd (execute_command failing_host demo_lib demo_plugin demo_world 0 mute_kwargs))))
       (VRef 1) ''message'' = Inr (VComps mute_components) \<and>
   mute_components \<noteq> [Plain (cp ''mute him'')]"
proof -
  have r: "resolve_alias demo_indexed (strip_slash cmd_mute) = cmd_mute"
    by (simp add: demo_names demo_mute_resolves)
  have i: "handler_cache demo_indexed (resolve_alias demo_indexed (strip_slash cmd_mute)) = Some mute_info"
    unfolding r by (rule demo_lookups(1))
  have s1: "demo_indexed =
      (if handler_cache demo_plugin = Map.empty then build_handler_cache demo_host demo_plugin
       else demo_plugin)"
    unfolding demo_first_call demo_indexed_def by (rule refl)
  have s2: "demo_indexed =
      (if handler_cache demo_plugin = Map.empty then build_handler_cache failing_host demo_plugin
       else demo_plugin)"
    using demo_first_call[of failing_host] by (simp only: failing_index)
  have mo: "(case py_getattr (store demo_world) (VRef 0) ''message_obj'' of
               Inl e \<Rightarrow> VNone | Inr v \<Rightarrow> v) = VRef 1"
    by (simp add: demo_store)
  have sp: "[cp ''123''] \<noteq> [] \<or> ([]::pystr) \<noteq> []" by simp
  have d: "(1::nat) \<noteq> 0" by simp
  note w1 = execute_command_world[OF demo_kwargs(1) demo_names(7) demo_kwargs(2) demo_kwargs(4)
              s1 demo_allowed(1) i
              demo_instance(1) demo_store(6), of demo_lib]
  note w2 = execute_command_world[OF demo_kwargs(1) demo_names(7) demo_kwargs(2) demo_kwargs(4)
              s2 demo_allowed(2) i
              demo_instance(2) demo_store(6), of demo_lib]
  have f1: "fst (execute_command demo_host demo_lib demo_plugin demo_world 0 mute_kwargs)
     = Inr (Success cmd_mute (Some (cp ''60'')) NoOutput None AsUser)"
    unfolding w1(2) r demo_kwargs mo
      try_body_response[OF demo_store(1), of demo_host mute_info, OF demo_handlers(1)]
      demo_handlers
    by (simp add: build_response_def collect_texts_def collect_images_def cp_def)
  have f2: "fst (execute_command failing_host demo_lib demo_plugin demo_world 0 mute_kwargs)
     = Inr (Failure (Some cmd_mute) (ExecutionFailed (Exn OtherErr (cp ''boom''))))"
    unfolding w2(2) r demo_kwargs mo
      try_body_response[OF demo_store(1), of failing_host mute_info, OF demo_handlers(2)]
      demo_handlers
    by simp
  have b1: "store (snd (snd (execute_command demo_host demo_lib demo_plugin demo_world 0 mute_kwargs))) 1
              = Some (demo_message_obj(''message'' \<mapsto> VComps mute_components))"
    unfolding w1(1) r demo_kwargs mo
    by (rule message_body_overwritten[OF demo_store(1) demo_store(4) d demo_store(2) demo_store(5)
              sp demo_synthesis])
  have b2: "store (snd (snd (execute_command failing_host demo_lib demo_plugin demo_world 0 mute_kwargs))) 1
              = Some (demo_message_obj(''message'' \<mapsto> VComps mute_components))"
    unfolding w2(1) r demo_kwargs mo
    by (rule message_body_overwritten[OF demo_store(1) demo_store(4) d demo_store(2) demo_store(5)
              sp demo_synthesis])
  have m1: "py_getattr (store (snd (snd (execute_command demo_host demo_lib demo_plugin demo_world 0
              mute_kwargs)))) (VRef 1) ''message'' = Inr (VComps mute_components)"
    using b1 by (simp add: py_getattr_def)
  have m2: "py_getattr (store (snd (snd (execute_command failing_host demo_lib demo_plugin demo_world 0
              mute_kwargs)))) (VRef 1) ''message'' = Inr (VComps mute_components)"
    using b2 by (simp add: py_getattr_def)
  have k1: "py_getattr (store (snd (snd (execute_command demo_host demo_lib demo_plugin demo_world 0
              mute_kwargs)))) (VRef 0) ''message_obj'' = Inr (VRef 1)"
    using references_restored[of demo_host demo_lib demo_plugin demo_world 0 mute_kwargs]
    by (simp only: demo_store(7))
  have k2: "py_getattr (store (snd (snd (execute_command failing_host demo_lib demo_plugin demo_world 0
              mute_kwargs)))) (VRef 0) ''message_obj'' = Inr (VRef 1)"
    using references_restored[of failing_host demo_lib demo_plugin demo_world 0 mute_kwargs]
    by (simp only: demo_store(7))
  have n: "mute_components \<noteq> [Plain (cp ''mute him'')]" by (simp add: mute_components_def)
  show ?thesis
    using demo_store(7) demo_store(8) f1 k1 m1 f2 k2 m2 n by (intro conjI)
qed

text \<open>
  Claim C10, as amended. When the command parameter is missing, or is a string of
  white space only, \<open>execute_command\<close> leaves the plugin state (so no index was rebuilt)
  and the world (the event and the log of sends) exactly as it received them. It
  returns the failure payload with the missing-parameter error when \<open>args\<close> and
  \<open>reply_image_url\<close> are each missing or a string; when one of them is present and no
  string, the \<open>AttributeError\<close> of its \<open>strip\<close> leaves the function and there is no
  payload.
\<close>

theorem missing_command:
  assumes "kw_command kw = None \<or>
           (\<exists>s. kw_command kw = Some (StrArg s) \<and> list_all py_isspace s)"
  shows "execute_command H L self W event kw =
           (if kw_args kw = Some NonStrArg \<or> kw_reply_image_url kw = Some NonStrArg
            then Inl (attribute_error ''strip'')
            else Inr (Failure None MissingCommand), self, W) \<and>
         \<not> success (Failure None MissingCommand)"
proof -
  from assms have c: "kw_str (kw_command kw) = Inr []"
  proof
    assume "kw_command kw = None"
    then show ?thesis by (simp add: kw_str_def strip_def)
  next
    assume "\<exists>s. kw_command kw = Some (StrArg s) \<and> list_all py_isspace s"
    then obtain s where s: "kw_command kw = Some (StrArg s)" "list_all py_isspace s" by blast
    have "strip s = []" using s(2) by (rule strip_blank)
    then show ?thesis using s(1) by (simp only: kw_str_def option.case arg.case)
  qed
  have n: "v = Some NonStrArg \<Longrightarrow> kw_str v = Inl (attribute_error ''strip'')" for v
    by (simp add: kw_str_def)
  have y: "v \<noteq> Some NonStrArg \<Longrightarrow> \<exists>t. kw_str v = Inr t" for v
    by (cases v) (auto simp: kw_str_def split: arg.splits)
  show ?thesis
  proof (cases "kw_args kw = Some NonStrArg")
    case True
    then show ?thesis using c n[OF True] by (simp add: execute_command_def)
  next
    case a: False
    from y[OF a] obtain args where ar: "kw_str (kw_args kw) = Inr args" by blast
    show ?thesis
    proof (cases "kw_reply_image_url kw = Some NonStrArg")
      case True
      then show ?thesis using c ar a n[OF True] by (simp add: execute_command_def Let_def)
    next
      case u: False
      from y[OF u] obtain url where ur: "kw_str (kw_reply_image_url kw) = Inr url" by blast
      show ?thesis using c ar ur a u by (simp add: execute_command_def Let_def)
    qed
  qed
qed

text \<open>A command of three spaces, and no command at all; \<open>args\<close> is missing in both calls.\<close>

theorem missing_command_witness:
  "kw_command blank_kwargs = Some (StrArg (cp ''   '')) \<and> list_all py_isspace (cp ''   '') \<and>
   execute_command demo_host demo_lib demo_plugin demo_world 0 blank_kwargs
     = (Inr (Failure None MissingCommand), demo_plugin, demo_world) \<and>
   execute_command demo_host demo_lib demo_plugin demo_world 0 (blank_kwargs\<lparr>kw_command := None\<rparr>)
     = (Inr (Failure None MissingCommand), demo_plugin, demo_world)"
proof -
  have a: "kw_command blank_kwargs = Some (StrArg (cp ''   ''))" by (simp add: blank_kwargs_def)
  have b: "list_all py_isspace (cp ''   '')" by (simp add: cp_def py_isspace_def)
  have h1: "kw_command blank_kwargs = None \<or>
            (\<exists>s. kw_command blank_kwargs = Some (StrArg s) \<and> list_all py_isspace s)"
    using a b by blast
  have h2: "kw_command (blank_kwargs\<lparr>kw_command := None\<rparr>) = None \<or>
            (\<exists>s. kw_command (blank_kwargs\<lparr>kw_command := None\<rparr>) = Some (StrArg s) \<and>
                 list_all py_isspace s)"
    by simp
  have o: "kw_args blank_kwargs = None" "kw_reply_image_url blank_kwargs = None"
    by (simp_all add: blank_kwargs_def)
  from missing_command[OF h1, of demo_host demo_lib demo_plugin demo_world 0]
       missing_command[OF h2, of demo_host demo_lib demo_plugin demo_world 0] a b o
  show ?thesis by simp
qed

text \<open>
  As the claim words it, every call with a blank command returns the payload. The call
  with a command of three spaces and \<open>args=None\<close> returns none: \<open>None\<close> has no \<open>strip\<close>.
\<close>

theorem missing_command_counterexample:
  "kw_command blank_null_kwargs = Some (StrArg (cp ''   '')) \<and>
   list_all py_isspace (cp ''   '') \<and>
   kw_args blank_null_kwargs = Some NonStrArg \<and>
   execute_command demo_host demo_lib demo_plugin demo_world 0 blank_null_kwargs
     = (Inl (Exn AttributeErr (cp ''strip'')), demo_plugin, demo_world)"
  by (simp add: blank_null_kwargs_def blank_kwargs_def execute_command_def kw_str_def
        attribute_error_def strip_def cp_def py_isspace_def)

text \<open>
  Claim C4, as amended. For every list of captured results, batched delivery is chosen
  exactly when batching is enabled, the total length of the extracted texts exceeds
  the threshold and the platform is the one that supports it. On the batch path, when
  some result has a non-empty chain, one combined send call is made, followed by one
  send call per captured result only when the combined send raises; when no result
  has a chain, no send call is made. In every other case one send call is made per
  captured result, in order.
\<close>

theorem fan_out_sends:
  "use_forward H self event (collect_texts results) =
     (enable_forward self \<and> forward_threshold self < total_text_length (collect_texts results) \<and>
      platform_name_of H event = cp ''aiocqhttp'') \<and>
   fan_out H self event results (collect_texts results) log =
     log @ (if use_forward H self event (collect_texts results) then
              (if all_components results = [] then []
               else ChainResult [Node (self_id_of H event) (all_components results)] #
                    (case send_raises H (length log)
                            (ChainResult [Node (self_id_of H event) (all_components results)]) of
                       None \<Rightarrow> []
                     | Some forward_err \<Rightarrow> results))
            else results)"
  by (auto simp: use_forward_def fan_out_def send_def send_each_log split: option.splits)

text \<open>
  Two chain results of six characters in all: with a threshold of 3 they go out in one
  combined send, with the threshold of 1500 one by one.
\<close>

theorem fan_out_sends_witness:
  "fan_out demo_host (demo_plugin\<lparr>forward_threshold := 3\<rparr>) 0
      [ChainResult [Plain (cp ''abcd'')], ChainResult [Plain (cp ''ef'')]]
      (collect_texts [ChainResult [Plain (cp ''abcd'')], ChainResult [Plain (cp ''ef'')]]) []
     = [ChainResult [Node (cp ''20002'') [Plain (cp ''abcd''), Plain (cp ''ef'')]]] \<and>
   fan_out demo_host demo_plugin 0
      [ChainResult [Plain (cp ''abcd'')], ChainResult [Plain (cp ''ef'')]]
      (collect_texts [ChainResult [Plain (cp ''abcd'')], ChainResult [Plain (cp ''ef'')]]) []
     = [ChainResult [Plain (cp ''abcd'')], ChainResult [Plain (cp ''ef'')]]"
proof -
  let ?rs = "[ChainResult [Plain (cp ''abcd'')], ChainResult [Plain (cp ''ef'')]]"
  have t: "total_text_length (collect_texts ?rs) = 6"
    by (simp add: total_text_length_def collect_texts_def extract_content_from_result_def cp_def)
  have a: "all_components ?rs = [Plain (cp ''abcd''), Plain (cp ''ef'')]"
    by (simp add: all_components_def)
  have h: "platform_name_of demo_host 0 = cp ''aiocqhttp''" "self_id_of demo_host 0 = cp ''20002''"
    "send_raises demo_host 0 p = None" for p
    by (simp_all add: demo_host_def)
  have c: "enable_forward (demo_plugin\<lparr>forward_threshold := 3\<rparr>)"
    "forward_threshold (demo_plugin\<lparr>forward_threshold := 3\<rparr>) = 3"
    "enable_forward demo_plugin" "forward_threshold demo_plugin = 1500"
    by (simp_all add: demo_plugin_def)
  from fan_out_sends[of demo_host "demo_plugin\<lparr>forward_threshold := 3\<rparr>" 0 ?rs "[]"]
       fan_out_sends[of demo_host demo_plugin 0 ?rs "[]"]
  show ?thesis by (simp add: t a h c)
qed

text \<open>
  As the claim words it, the batch path makes exactly one combined send. A bare string
  of four characters, with a threshold of 3, selects the batch path, and nothing is
  sent at all.
\<close>

theorem fan_out_sends_counterexample:
  "use_forward demo_host (demo_plugin\<lparr>forward_threshold := 3\<rparr>) 0
      (collect_texts [StrResult (cp ''abcd'')]) \<and>
   fan_out demo_host (demo_plugin\<lparr>forward_threshold := 3\<rparr>) 0 [StrResult (cp ''abcd'')]
      (collect_texts [StrResult (cp ''abcd'')]) [] = []"
  by (simp add: use_forward_def fan_out_def collect_texts_def extract_content_from_result_def
        total_text_length_def all_components_def demo_plugin_def demo_host_def cp_def)

end
